theory Spec2Isabelle
  imports Complex_Main "HOL-Library.Word" "HOL-Library.Product_Lexorder"
begin

section \<open>Python values\<close>

text \<open>
  A Python \<open>str\<close> is a sequence of Unicode code points, a \<open>bytes\<close> object a sequence
  of octets. Python integers are unbounded.
\<close>

type_synonym pystr = "nat list"
type_synonym pybytes = "8 word list"

definition ustr :: "string \<Rightarrow> pystr" where
  "ustr s = map of_char s"

definition bstr :: "string \<Rightarrow> pybytes" where
  "bstr s = map of_char s"

definition ints_of :: "pybytes \<Rightarrow> nat list" where
  "ints_of bs = map unat bs"

definition bytes_of :: "nat list \<Rightarrow> pybytes" where
  "bytes_of ns = map of_nat ns"

subsection \<open>The standard library\<close>

text \<open>
  The interpreter's Unicode tables, its codecs, \<open>html.parser.HTMLParser\<close> and
  \<open>difflib.SequenceMatcher\<close> are not part of the repository. They are a parameter
  \<open>L\<close> of the model, and a theorem with a free \<open>L\<close> holds for any behaviour of theirs:
  \<^item> the character tables beyond ASCII (on ASCII they are written out below);
  \<^item> \<open>cd_decode L enc bs\<close> is \<open>bs.decode(enc)\<close>, with \<open>None\<close> for \<open>UnicodeDecodeError\<close>, and
    \<open>cd_utf8_ignore L bs\<close> is \<open>bs.decode("utf-8", errors="ignore")\<close>;
  \<^item> \<open>html_events L s\<close> is the sequence of handler calls that \<open>feed(s)\<close> and \<open>close()\<close>
    make, with \<open>None\<close> when one of them raises;
  \<^item> \<open>sm_ratio L a b\<close> is \<open>SequenceMatcher(None, a, b).ratio()\<close>, a quotient of two
    integers, taken as the rational number it rounds.
\<close>

datatype encoding = UTF8 | CP1252 | LATIN1 | UTF16 | UTF16LE | UTF16BE

datatype html_event =
    StartTag pystr "(pystr \<times> pystr option) list"
  | EndTag pystr
  | Data pystr

record pylib =
  uc_isalpha :: "nat \<Rightarrow> bool"
  uc_isdigit :: "nat \<Rightarrow> bool"
  uc_decimal :: "nat \<Rightarrow> nat option"
  uc_isalnum :: "nat \<Rightarrow> bool"
  uc_lower :: "pystr \<Rightarrow> pystr"
  uc_casefold :: "nat \<Rightarrow> pystr"
  uc_caseless :: "nat \<Rightarrow> nat \<Rightarrow> bool"
  cd_decode :: "encoding \<Rightarrow> pybytes \<Rightarrow> pystr option"
  cd_utf8_ignore :: "pybytes \<Rightarrow> pystr"
  html_events :: "pystr \<Rightarrow> html_event list option"
  sm_ratio :: "pystr \<Rightarrow> pystr \<Rightarrow> rat"

definition is_ascii :: "nat \<Rightarrow> bool" where
  "is_ascii c = (c < 128)"

definition ascii_upper :: "nat \<Rightarrow> bool" where
  "ascii_upper c = (65 \<le> c \<and> c \<le> 90)"

definition ascii_lower :: "nat \<Rightarrow> bool" where
  "ascii_lower c = (97 \<le> c \<and> c \<le> 122)"

definition ascii_digit :: "nat \<Rightarrow> bool" where
  "ascii_digit c = (48 \<le> c \<and> c \<le> 57)"

definition ascii_tolower :: "nat \<Rightarrow> nat" where
  "ascii_tolower c = (if ascii_upper c then c + 32 else c)"

definition py_isalpha :: "pylib \<Rightarrow> nat \<Rightarrow> bool" where
  "py_isalpha L c = (if is_ascii c then ascii_upper c \<or> ascii_lower c else uc_isalpha L c)"

definition py_isdigit :: "pylib \<Rightarrow> nat \<Rightarrow> bool" where
  "py_isdigit L c = (if is_ascii c then ascii_digit c else uc_isdigit L c)"

text \<open>The value of a decimal digit, as \<open>int()\<close> and the pattern \<open>\d\<close> read it.\<close>

definition py_decimal :: "pylib \<Rightarrow> nat \<Rightarrow> nat option" where
  "py_decimal L c =
     (if is_ascii c then (if ascii_digit c then Some (c - 48) else None) else uc_decimal L c)"

definition py_isalnum :: "pylib \<Rightarrow> nat \<Rightarrow> bool" where
  "py_isalnum L c =
     (if is_ascii c then ascii_upper c \<or> ascii_lower c \<or> ascii_digit c else uc_isalnum L c)"

text \<open>
  \<open>str.isspace\<close>, \<open>str.strip\<close> and the pattern \<open>\s\<close> share one table of white space.
\<close>

definition py_isspace :: "nat \<Rightarrow> bool" where
  "py_isspace c =
     ((9 \<le> c \<and> c \<le> 13) \<or> (28 \<le> c \<and> c \<le> 32) \<or> c = 133 \<or> c = 160 \<or> c = 5760
      \<or> (8192 \<le> c \<and> c \<le> 8202) \<or> c = 8232 \<or> c = 8233 \<or> c = 8239 \<or> c = 8287
      \<or> c = 12288)"

definition ascii_isspace :: "nat \<Rightarrow> bool" where
  "ascii_isspace c = ((9 \<le> c \<and> c \<le> 13) \<or> c = 32)"

definition py_lower :: "pylib \<Rightarrow> pystr \<Rightarrow> pystr" where
  "py_lower L s = (if list_all is_ascii s then map ascii_tolower s else uc_lower L s)"

definition py_casefold :: "pylib \<Rightarrow> pystr \<Rightarrow> pystr" where
  "py_casefold L s =
     concat (map (\<lambda>c. if is_ascii c then [ascii_tolower c] else uc_casefold L c) s)"

subsection \<open>String methods\<close>

definition py_startswith :: "'a list \<Rightarrow> 'a list \<Rightarrow> bool" where
  "py_startswith s p = (take (length p) s = p)"

definition py_endswith :: "'a list \<Rightarrow> 'a list \<Rightarrow> bool" where
  "py_endswith s p = (length p \<le> length s \<and> drop (length s - length p) s = p)"

text \<open>\<open>s.find(sub)\<close>: the lowest index where \<open>sub\<close> starts, or \<open>-1\<close>.\<close>

fun py_find_from :: "int \<Rightarrow> 'a list \<Rightarrow> 'a list \<Rightarrow> int" where
  "py_find_from i [] p = (if p = [] then i else -1)"
| "py_find_from i (c # cs) p =
     (if py_startswith (c # cs) p then i else py_find_from (i + 1) cs p)"

definition py_find :: "'a list \<Rightarrow> 'a list \<Rightarrow> int" where
  "py_find s p = py_find_from 0 s p"

definition py_contains :: "'a list \<Rightarrow> 'a list \<Rightarrow> bool" where
  "py_contains p s = (py_find s p \<noteq> -1)"

text \<open>\<open>s[a:b]\<close> for \<open>0 \<le> a \<le> b\<close>.\<close>

definition py_slice :: "'a list \<Rightarrow> nat \<Rightarrow> nat \<Rightarrow> 'a list" where
  "py_slice s a b = take (b - a) (drop a s)"

text \<open>\<open>s.replace(old, new)\<close> for a non-empty \<open>old\<close>: left to right, not overlapping.\<close>

function py_replace :: "'a list \<Rightarrow> 'a list \<Rightarrow> 'a list \<Rightarrow> 'a list" where
  "py_replace old new s =
     (case s of
        [] \<Rightarrow> []
      | c # cs \<Rightarrow>
          if old \<noteq> [] \<and> py_startswith s old
          then new @ py_replace old new (drop (length old) s)
          else c # py_replace old new cs)"
  by pat_completeness auto
termination
  by (relation "measure (\<lambda>(old, new, s). length s)") auto

definition py_lstrip :: "pystr \<Rightarrow> pystr" where
  "py_lstrip s = dropWhile py_isspace s"

definition py_rstrip :: "pystr \<Rightarrow> pystr" where
  "py_rstrip s = rev (dropWhile py_isspace (rev s))"

definition py_strip :: "pystr \<Rightarrow> pystr" where
  "py_strip s = py_rstrip (py_lstrip s)"

text \<open>\<open>s.lstrip(" ")\<close>\<close>

definition py_lstrip_spaces :: "pystr \<Rightarrow> pystr" where
  "py_lstrip_spaces s = dropWhile (\<lambda>c. c = 32) s"

text \<open>\<open>s.split("\n")\<close> and \<open>"\n".join(parts)\<close>\<close>

fun py_split_lines :: "pystr \<Rightarrow> pystr list" where
  "py_split_lines [] = [[]]"
| "py_split_lines (c # cs) =
     (case py_split_lines cs of
        [] \<Rightarrow> (if c = 10 then [[], []] else [[c]])
      | l # ls \<Rightarrow> (if c = 10 then [] # l # ls else (c # l) # ls))"

fun py_join :: "pystr \<Rightarrow> pystr list \<Rightarrow> pystr" where
  "py_join sep [] = []"
| "py_join sep [x] = x"
| "py_join sep (x # y # ys) = x @ sep @ py_join sep (y # ys)"

text \<open>
  \<open>int(digits)\<close> on a run of digits; \<open>None\<close> is \<open>ValueError\<close>. \<open>int\<close> raises on a digit
  that is no decimal digit and, by the interpreter's limit on the conversion of strings
  to integers, on more than 4300 digits.
\<close>

fun py_int_from :: "pylib \<Rightarrow> nat \<Rightarrow> pystr \<Rightarrow> nat option" where
  "py_int_from L acc [] = Some acc"
| "py_int_from L acc (c # cs) =
     (case py_decimal L c of None \<Rightarrow> None | Some d \<Rightarrow> py_int_from L (10 * acc + d) cs)"

definition py_int :: "pylib \<Rightarrow> pystr \<Rightarrow> nat option" where
  "py_int L s =
     (if s = [] then None
      else if 4300 < length s then None
      else py_int_from L 0 s)"

text \<open>An exception that a function of the source lets through to its caller.\<close>

datatype py_error = ValueError

section \<open>Regular expressions\<close>

text \<open>
  The patterns of the source are matched as the \<open>re\<close> module matches them: by
  backtracking, the alternatives tried in the order of \<open>re\<close>, so that the first match found
  is the match \<open>re\<close> reports.
\<close>

datatype cset = CChr nat | CRng nat nat | CSpace | CDigit

datatype rx =
    Chr nat
  | Set "cset list"
  | NSet "cset list"
  | Dot
  | Eps
  | Seq rx rx
  | Alt rx rx
  | Rep bool nat "nat option" rx
  | Grp nat rx
  | Dollar
  | WordB

datatype rxflags = RxFlags (fl_ignorecase: bool) (fl_dotall: bool) (fl_bytes: bool)

datatype mstate = MState (m_prev: "nat option") (m_rest: pystr) (m_groups: "(nat \<times> pystr) list")

text \<open>Literal text, a greedy star, plus and option, and a lazy star.\<close>

fun rx_lit :: "pystr \<Rightarrow> rx" where
  "rx_lit [] = Eps"
| "rx_lit [c] = Chr c"
| "rx_lit (c # cs) = Seq (Chr c) (rx_lit cs)"

definition rx_str :: "string \<Rightarrow> rx" where
  "rx_str s = rx_lit (ustr s)"

definition Star :: "rx \<Rightarrow> rx" where
  "Star r = Rep True 0 None r"

definition Plus :: "rx \<Rightarrow> rx" where
  "Plus r = Rep True 1 None r"

definition Opt :: "rx \<Rightarrow> rx" where
  "Opt r = Rep True 0 (Some 1) r"

definition LazyStar :: "rx \<Rightarrow> rx" where
  "LazyStar r = Rep False 0 None r"

fun rx_seq :: "rx list \<Rightarrow> rx" where
  "rx_seq [] = Eps"
| "rx_seq [r] = r"
| "rx_seq (r # rs) = Seq r (rx_seq rs)"

text \<open>
  Two characters are the same to a pattern compiled with \<open>IGNORECASE\<close> when their lower
  cases agree; outside ASCII the table decides.
\<close>

definition chr_eq :: "pylib \<Rightarrow> rxflags \<Rightarrow> nat \<Rightarrow> nat \<Rightarrow> bool" where
  "chr_eq L fl a c =
     (a = c \<or>
      (fl_ignorecase fl \<and>
       (if is_ascii a \<and> is_ascii c then ascii_tolower a = ascii_tolower c
        else \<not> fl_bytes fl \<and> uc_caseless L a c)))"

fun in_cset :: "pylib \<Rightarrow> rxflags \<Rightarrow> nat \<Rightarrow> cset \<Rightarrow> bool" where
  "in_cset L fl c (CChr a) = (c = a)"
| "in_cset L fl c (CRng a b) = (a \<le> c \<and> c \<le> b)"
| "in_cset L fl c CSpace = (if fl_bytes fl then ascii_isspace c else py_isspace c)"
| "in_cset L fl c CDigit =
     (if fl_bytes fl then ascii_digit c else py_decimal L c \<noteq> None)"

definition ascii_swapcase :: "nat \<Rightarrow> nat" where
  "ascii_swapcase c = (if ascii_upper c then c + 32 else if ascii_lower c then c - 32 else c)"

text \<open>
  A character is in a class when one of the items holds it, or, with \<open>IGNORECASE\<close>, when
  the items hold a character of the same case class: for an ASCII character its other
  case, for another character what the table pairs it with.
\<close>

definition in_class :: "pylib \<Rightarrow> rxflags \<Rightarrow> cset list \<Rightarrow> nat \<Rightarrow> bool" where
  "in_class L fl items c =
     (if list_ex (in_cset L fl c) items then True
      else if \<not> fl_ignorecase fl then False
      else if is_ascii c then list_ex (in_cset L fl (ascii_swapcase c)) items
      else if fl_bytes fl then False
      else list_ex (\<lambda>d. uc_caseless L d c \<and> list_ex (in_cset L fl d) items) [0..<128])"

definition is_word :: "pylib \<Rightarrow> rxflags \<Rightarrow> nat option \<Rightarrow> bool" where
  "is_word L fl x =
     (case x of
        None \<Rightarrow> False
      | Some c \<Rightarrow>
          c = 95 \<or> (if fl_bytes fl then is_ascii c \<and> py_isalnum L c else py_isalnum L c))"

definition next_char :: "mstate \<Rightarrow> nat option" where
  "next_char st = (case m_rest st of [] \<Rightarrow> None | c # cs \<Rightarrow> Some c)"

text \<open>
  What is left to match is a list of items: a pattern; the end of one iteration of a
  repetition, with the number of characters that were left when the iteration began;
  the end of a group, with the text that was left when the group began.
\<close>

datatype item = Rx rx | Iter bool nat "nat option" rx nat | Close nat pystr

fun eat :: "(nat \<Rightarrow> bool) \<Rightarrow> mstate \<Rightarrow> mstate option" where
  "eat p (MState pv [] g) = None"
| "eat p (MState pv (c # cs) g) = (if p c then Some (MState (Some c) cs g) else None)"

text \<open>
  The weights below only serve the termination proof of the matcher: a repetition weighs
  more than one run of its body followed by the rest of the repetition.
\<close>

primrec rx_weight :: "nat \<Rightarrow> rx \<Rightarrow> nat" where
  "rx_weight n (Chr a) = 1"
| "rx_weight n (Set items) = 1"
| "rx_weight n (NSet items) = 1"
| "rx_weight n Dot = 1"
| "rx_weight n Eps = 1"
| "rx_weight n (Seq r1 r2) = 1 + rx_weight n r1 + rx_weight n r2"
| "rx_weight n (Alt r1 r2) = 1 + rx_weight n r1 + rx_weight n r2"
| "rx_weight n (Rep greedy lo hi r) = (lo + n + 1) * (rx_weight n r + 2)"
| "rx_weight n (Grp g r) = 2 + rx_weight n r"
| "rx_weight n Dollar = 1"
| "rx_weight n WordB = 1"

fun item_weight :: "nat \<Rightarrow> item \<Rightarrow> nat" where
  "item_weight n (Rx r) = rx_weight n r"
| "item_weight n (Iter greedy lo hi r n0) =
     (if 0 < lo \<or> n < n0 then Suc (rx_weight n (Rep greedy (lo - 1) hi r)) else 0)"
| "item_weight n (Close g start) = 1"

text \<open>
  The matcher. Past the lower bound of a repetition an iteration that consumes nothing
  ends it.
\<close>

function rx_run :: "pylib \<Rightarrow> rxflags \<Rightarrow> item list \<Rightarrow> mstate \<Rightarrow> mstate option" where
  "rx_run L fl [] st = Some st"
| "rx_run L fl (Rx (Chr a) # rs) st =
     (case eat (chr_eq L fl a) st of None \<Rightarrow> None | Some st' \<Rightarrow> rx_run L fl rs st')"
| "rx_run L fl (Rx (Set items) # rs) st =
     (case eat (in_class L fl items) st of None \<Rightarrow> None | Some st' \<Rightarrow> rx_run L fl rs st')"
| "rx_run L fl (Rx (NSet items) # rs) st =
     (case eat (\<lambda>c. \<not> in_class L fl items c) st of
        None \<Rightarrow> None
      | Some st' \<Rightarrow> rx_run L fl rs st')"
| "rx_run L fl (Rx Dot # rs) st =
     (case eat (\<lambda>c. fl_dotall fl \<or> c \<noteq> 10) st of
        None \<Rightarrow> None
      | Some st' \<Rightarrow> rx_run L fl rs st')"
| "rx_run L fl (Rx Eps # rs) st = rx_run L fl rs st"
| "rx_run L fl (Rx (Seq r1 r2) # rs) st = rx_run L fl (Rx r1 # Rx r2 # rs) st"
| "rx_run L fl (Rx (Alt r1 r2) # rs) st =
     (case rx_run L fl (Rx r1 # rs) st of
        Some found \<Rightarrow> Some found
      | None \<Rightarrow> rx_run L fl (Rx r2 # rs) st)"
| "rx_run L fl (Rx (Rep greedy lo hi r) # rs) st =
     (if greedy then
        (case (if hi = Some 0 then None
               else rx_run L fl (Rx r # Iter greedy lo hi r (length (m_rest st)) # rs) st) of
           Some found \<Rightarrow> Some found
         | None \<Rightarrow> if lo = 0 then rx_run L fl rs st else None)
      else
        (case (if lo = 0 then rx_run L fl rs st else None) of
           Some found \<Rightarrow> Some found
         | None \<Rightarrow>
             if hi = Some 0 then None
             else rx_run L fl (Rx r # Iter greedy lo hi r (length (m_rest st)) # rs) st))"
| "rx_run L fl (Iter greedy lo hi r n0 # rs) st =
     (if 0 < lo \<or> length (m_rest st) < n0
      then rx_run L fl (Rx (Rep greedy (lo - 1) (map_option (\<lambda>h. h - 1) hi) r) # rs) st
      else None)"
| "rx_run L fl (Rx (Grp g r) # rs) st = rx_run L fl (Rx r # Close g (m_rest st) # rs) st"
| "rx_run L fl (Close g start # rs) st =
     rx_run L fl rs
       (MState (m_prev st) (m_rest st)
          ((g, take (length start - length (m_rest st)) start) # m_groups st))"
| "rx_run L fl (Rx Dollar # rs) st =
     (if m_rest st = [] \<or> m_rest st = [10] then rx_run L fl rs st else None)"
| "rx_run L fl (Rx WordB # rs) st =
     (if is_word L fl (m_prev st) \<noteq> is_word L fl (next_char st) then rx_run L fl rs st else None)"
  by pat_completeness auto
termination
proof -
  have eaten: "length (m_rest st') < length (m_rest st)" if "eat p st = Some st'" for p st st'
    using that by (cases "(p, st)" rule: eat.cases) (auto split: if_splits)
  show ?thesis
    by (relation "measures [\<lambda>(L, fl, todo, st). length (m_rest st),
                            \<lambda>(L, fl, todo, st). sum_list (map (item_weight (length (m_rest st))) todo)]")
       (auto dest!: eaten)
qed

text \<open>A match: where it starts, how long it is, and what its groups hold.\<close>

datatype rmatch = RMatch (rm_start: nat) (rm_len: nat) (rm_groups: "(nat \<times> pystr) list")

definition rx_group :: "rmatch \<Rightarrow> nat \<Rightarrow> pystr option" where
  "rx_group m n = map_of (rm_groups m) n"

text \<open>The match at the current position, if there is one (\<open>re.match\<close> at the start).\<close>

definition rx_at :: "pylib \<Rightarrow> rxflags \<Rightarrow> rx \<Rightarrow> nat option \<Rightarrow> pystr \<Rightarrow> rmatch option" where
  "rx_at L fl r pv s =
     (case rx_run L fl [Rx r] (MState pv s []) of
        None \<Rightarrow> None
      | Some st \<Rightarrow> Some (RMatch 0 (length s - length (m_rest st)) (m_groups st)))"

definition rx_match :: "pylib \<Rightarrow> rxflags \<Rightarrow> rx \<Rightarrow> pystr \<Rightarrow> rmatch option" where
  "rx_match L fl r s = rx_at L fl r None s"

text \<open>\<open>re.search\<close>: the match at the leftmost position that has one.\<close>

fun rx_search_from ::
  "pylib \<Rightarrow> rxflags \<Rightarrow> rx \<Rightarrow> nat \<Rightarrow> nat option \<Rightarrow> pystr \<Rightarrow> rmatch option"
where
  "rx_search_from L fl r i pv [] =
     (case rx_at L fl r pv [] of
        None \<Rightarrow> None
      | Some m \<Rightarrow> Some (RMatch i (rm_len m) (rm_groups m)))"
| "rx_search_from L fl r i pv (c # cs) =
     (case rx_at L fl r pv (c # cs) of
        None \<Rightarrow> rx_search_from L fl r (i + 1) (Some c) cs
      | Some m \<Rightarrow> Some (RMatch i (rm_len m) (rm_groups m)))"

definition rx_search :: "pylib \<Rightarrow> rxflags \<Rightarrow> rx \<Rightarrow> pystr \<Rightarrow> rmatch option" where
  "rx_search L fl r s = rx_search_from L fl r 0 None s"

text \<open>
  The successive matches of \<open>re.finditer\<close>, left to right and not overlapping: after a
  match the scan goes on where it ended, and after an empty one a character further.
\<close>

function rx_matches_from ::
  "pylib \<Rightarrow> rxflags \<Rightarrow> rx \<Rightarrow> nat \<Rightarrow> nat option \<Rightarrow> pystr \<Rightarrow> rmatch list"
where
  "rx_matches_from L fl r i pv s =
     (case rx_at L fl r pv s of
        None \<Rightarrow>
          (case s of [] \<Rightarrow> [] | c # cs \<Rightarrow> rx_matches_from L fl r (i + 1) (Some c) cs)
      | Some m \<Rightarrow>
          RMatch i (rm_len m) (rm_groups m) #
          (case s of
             [] \<Rightarrow> []
           | c # cs \<Rightarrow>
               if rm_len m = 0 then rx_matches_from L fl r (i + 1) (Some c) cs
               else rx_matches_from L fl r (i + rm_len m)
                      (Some (last (take (rm_len m) s))) (drop (rm_len m) s)))"
  by pat_completeness auto
termination
  by (relation "measure (\<lambda>(L, fl, r, i, pv, s). length s)") auto

definition rx_finditer :: "pylib \<Rightarrow> rxflags \<Rightarrow> rx \<Rightarrow> pystr \<Rightarrow> rmatch list" where
  "rx_finditer L fl r s = rx_matches_from L fl r 0 None s"

text \<open>\<open>re.sub(pattern, repl, s)\<close> with a replacement that is plain text.\<close>

fun splice :: "pystr \<Rightarrow> nat \<Rightarrow> pystr \<Rightarrow> rmatch list \<Rightarrow> pystr" where
  "splice repl i s [] = s"
| "splice repl i s (m # ms) =
     take (rm_start m - i) s @ repl @
     splice repl (rm_start m + rm_len m) (drop (rm_start m + rm_len m - i) s) ms"

definition rx_sub :: "pylib \<Rightarrow> rxflags \<Rightarrow> rx \<Rightarrow> pystr \<Rightarrow> pystr \<Rightarrow> pystr" where
  "rx_sub L fl r repl s = splice repl 0 s (rx_finditer L fl r s)"

text \<open>\<open>re.split(pattern, s)\<close> for a pattern without groups that matches no empty text.\<close>

fun cut :: "nat \<Rightarrow> pystr \<Rightarrow> rmatch list \<Rightarrow> pystr list" where
  "cut i s [] = [s]"
| "cut i s (m # ms) =
     take (rm_start m - i) s #
     cut (rm_start m + rm_len m) (drop (rm_start m + rm_len m - i) s) ms"

definition rx_split :: "pylib \<Rightarrow> rxflags \<Rightarrow> rx \<Rightarrow> pystr \<Rightarrow> pystr list" where
  "rx_split L fl r s = cut 0 s (rx_finditer L fl r s)"

definition str_flags :: rxflags where
  "str_flags = RxFlags False False False"

definition bytes_flags :: rxflags where
  "bytes_flags = RxFlags False False True"


section \<open>A library instance for evaluation\<close>

text \<open>
  Closed evaluations need a value for the library parameter. \<open>ascii_lib\<close> decodes bytes
  as CPython's codecs do (strict UTF-8, code page 1252 with its five undefined bytes,
  little-endian UTF-16 as the native order), knows no letter, digit or case pair beyond
  ASCII, and delivers no parser events and no similarity of its own: an evaluation that
  needs those sets them with a record update.
\<close>

definition is_cont :: "nat \<Rightarrow> bool" where
  "is_cont b = (128 \<le> b \<and> b < 192)"

text \<open>The first code point of a UTF-8 text and the number of bytes it takes.\<close>

fun utf8_first :: "nat list \<Rightarrow> (nat \<times> nat) option" where
  "utf8_first [] = None"
| "utf8_first (b0 # bs) =
     (if b0 < 128 then Some (b0, 1)
      else if 194 \<le> b0 \<and> b0 \<le> 223 then
        (case bs of
           b1 # _ \<Rightarrow> if is_cont b1 then Some ((b0 - 192) * 64 + (b1 - 128), 2) else None
         | [] \<Rightarrow> None)
      else if 224 \<le> b0 \<and> b0 \<le> 239 then
        (case bs of
           b1 # b2 # _ \<Rightarrow>
             if is_cont b1 \<and> is_cont b2
                \<and> (if b0 = 224 then 160 \<le> b1 else if b0 = 237 then b1 < 160 else True)
             then Some ((b0 - 224) * 4096 + (b1 - 128) * 64 + (b2 - 128), 3) else None
         | _ \<Rightarrow> None)
      else if 240 \<le> b0 \<and> b0 \<le> 244 then
        (case bs of
           b1 # b2 # b3 # _ \<Rightarrow>
             if is_cont b1 \<and> is_cont b2 \<and> is_cont b3
                \<and> (if b0 = 240 then 144 \<le> b1 else if b0 = 244 then b1 < 144 else True)
             then Some ((b0 - 240) * 262144 + (b1 - 128) * 4096 + (b2 - 128) * 64 + (b3 - 128), 4)
             else None
         | _ \<Rightarrow> None)
      else None)"

function utf8_strict :: "nat list \<Rightarrow> pystr option" where
  "utf8_strict bs =
     (if bs = [] then Some []
      else (case utf8_first bs of
              None \<Rightarrow> None
            | Some (cp, n) \<Rightarrow> map_option ((#) cp) (utf8_strict (drop n bs))))"
  by pat_completeness auto
termination
  by (relation "measure length") (auto elim!: utf8_first.elims split: if_splits list.splits)

function utf8_ignore :: "nat list \<Rightarrow> pystr" where
  "utf8_ignore bs =
     (if bs = [] then []
      else (case utf8_first bs of
              None \<Rightarrow> utf8_ignore (tl bs)
            | Some (cp, n) \<Rightarrow> cp # utf8_ignore (drop n bs)))"
  by pat_completeness auto
termination
  by (relation "measure length") (auto elim!: utf8_first.elims split: if_splits list.splits)

definition cp1252_high :: "nat option list" where
  "cp1252_high =
     [Some 8364, None, Some 8218, Some 402, Some 8222, Some 8230, Some 8224, Some 8225,
      Some 710, Some 8240, Some 352, Some 8249, Some 338, None, Some 381, None,
      None, Some 8216, Some 8217, Some 8220, Some 8221, Some 8226, Some 8211, Some 8212,
      Some 732, Some 8482, Some 353, Some 8250, Some 339, None, Some 382, Some 376]"

definition cp1252_char :: "nat \<Rightarrow> nat option" where
  "cp1252_char b = (if 128 \<le> b \<and> b < 160 then cp1252_high ! (b - 128) else Some b)"

fun cp1252_strict :: "nat list \<Rightarrow> pystr option" where
  "cp1252_strict [] = Some []"
| "cp1252_strict (b # bs) =
     (case cp1252_char b of
        None \<Rightarrow> None
      | Some c \<Rightarrow> map_option ((#) c) (cp1252_strict bs))"

fun utf16_units :: "bool \<Rightarrow> nat list \<Rightarrow> nat list option" where
  "utf16_units little [] = Some []"
| "utf16_units little [b] = None"
| "utf16_units little (a # b # bs) =
     map_option ((#) (if little then a + 256 * b else 256 * a + b)) (utf16_units little bs)"

fun utf16_points :: "nat list \<Rightarrow> pystr option" where
  "utf16_points [] = Some []"
| "utf16_points (u # us) =
     (if 55296 \<le> u \<and> u < 56320 then
        (case us of
           [] \<Rightarrow> None
         | v # vs \<Rightarrow>
             if 56320 \<le> v \<and> v < 57344
             then map_option ((#) (65536 + (u - 55296) * 1024 + (v - 56320))) (utf16_points vs)
             else None)
      else if 56320 \<le> u \<and> u < 57344 then None
      else map_option ((#) u) (utf16_points us))"

definition utf16_strict :: "bool \<Rightarrow> nat list \<Rightarrow> pystr option" where
  "utf16_strict little bs =
     (case utf16_units little bs of None \<Rightarrow> None | Some us \<Rightarrow> utf16_points us)"

definition utf16_bom :: "nat list \<Rightarrow> pystr option" where
  "utf16_bom bs =
     (if py_startswith bs [255, 254] then utf16_strict True (drop 2 bs)
      else if py_startswith bs [254, 255] then utf16_strict False (drop 2 bs)
      else utf16_strict True bs)"

fun model_decode :: "encoding \<Rightarrow> pybytes \<Rightarrow> pystr option" where
  "model_decode UTF8 bs = utf8_strict (ints_of bs)"
| "model_decode CP1252 bs = cp1252_strict (ints_of bs)"
| "model_decode LATIN1 bs = Some (ints_of bs)"
| "model_decode UTF16 bs = utf16_bom (ints_of bs)"
| "model_decode UTF16LE bs = utf16_strict True (ints_of bs)"
| "model_decode UTF16BE bs = utf16_strict False (ints_of bs)"

definition ascii_lib :: pylib where
  "ascii_lib =
     \<lparr>uc_isalpha = (\<lambda>c. False), uc_isdigit = (\<lambda>c. False), uc_decimal = (\<lambda>c. None),
      uc_isalnum = (\<lambda>c. False), uc_lower = (\<lambda>s. s), uc_casefold = (\<lambda>c. [c]),
      uc_caseless = (\<lambda>a c. False),
      cd_decode = model_decode, cd_utf8_ignore = (\<lambda>bs. utf8_ignore (ints_of bs)),
      html_events = (\<lambda>s. None), sm_ratio = (\<lambda>a b. 0)\<rparr>"

section \<open>The byte decoder\<close>

text \<open>
  \<open>bs.decode(enc)\<close>. The Latin-1 codec maps every byte to the code point of the same
  number and cannot fail; the other codecs are the library's.
\<close>

definition py_decode :: "pylib \<Rightarrow> encoding \<Rightarrow> pybytes \<Rightarrow> pystr option" where
  "py_decode L enc bs = (if enc = LATIN1 then Some (ints_of bs) else cd_decode L enc bs)"

text \<open>\<open>xs[0::2]\<close>; \<open>xs[1::2]\<close> is \<open>stride2 (drop 1 xs)\<close>.\<close>

fun stride2 :: "'a list \<Rightarrow> 'a list" where
  "stride2 [] = []"
| "stride2 [x] = [x]"
| "stride2 (x # y # xs) = x # stride2 xs"

text \<open>
  \<open>xs.count(0) / len(xs)\<close>. The source compares this float with \<open>0.55\<close> and \<open>0.25\<close>; for
  a denominator of at most 512 the comparison of the floats is the comparison of the
  rationals.
\<close>

definition zero_fraction :: "pybytes \<Rightarrow> rat" where
  "zero_fraction xs = of_nat (length (filter (\<lambda>b. b = 0) xs)) / of_nat (length xs)"

definition sample_of :: "pybytes \<Rightarrow> pybytes" where
  "sample_of blob = take (min (length blob) 1024) blob"

definition looks_like_utf16le :: "pybytes \<Rightarrow> bool" where
  "looks_like_utf16le blob =
     (let sample = sample_of blob in
      if length sample < 8 then False
      else
        let even = stride2 sample; odd = stride2 (drop 1 sample) in
        if even = [] \<or> odd = [] then False
        else 55 / 100 < zero_fraction odd \<and> zero_fraction even < 25 / 100)"

definition looks_like_utf16be :: "pybytes \<Rightarrow> bool" where
  "looks_like_utf16be blob =
     (let sample = sample_of blob in
      if length sample < 8 then False
      else
        let even = stride2 sample; odd = stride2 (drop 1 sample) in
        if even = [] \<or> odd = [] then False
        else 55 / 100 < zero_fraction even \<and> zero_fraction odd < 25 / 100)"

definition starts_with_bom :: "pybytes \<Rightarrow> bool" where
  "starts_with_bom data = (py_startswith data [255, 254] \<or> py_startswith data [254, 255])"

text \<open>\<open>re.sub(rb"\x00+$", b"", data)\<close>\<close>

definition strip_nul_padding :: "pylib \<Rightarrow> pybytes \<Rightarrow> pybytes" where
  "strip_nul_padding L data =
     bytes_of (rx_sub L bytes_flags (Seq (Plus (Chr 0)) Dollar) [] (ints_of data))"

definition drop_odd_byte :: "pybytes \<Rightarrow> pybytes" where
  "drop_odd_byte data = (if length data mod 2 = 1 then butlast data else data)"

text \<open>The bytes that are decoded and the codecs that are tried on them, in order.\<close>

definition decode_attempt :: "pylib \<Rightarrow> pybytes \<Rightarrow> pybytes \<times> encoding list" where
  "decode_attempt L raw_data =
     (let looks_le = looks_like_utf16le raw_data;
          looks_be = looks_like_utf16be raw_data;
          bom = starts_with_bom raw_data;
          data = (if \<not> (bom \<or> looks_le \<or> looks_be) then strip_nul_padding L raw_data
                  else raw_data)
      in if bom then (data, [UTF16, UTF8, CP1252, LATIN1])
         else if looks_le then (drop_odd_byte data, [UTF16LE, UTF16, UTF8, CP1252, LATIN1])
         else if looks_be then (drop_odd_byte data, [UTF16BE, UTF16, UTF8, CP1252, LATIN1])
         else (data, [UTF8, CP1252, LATIN1, UTF16LE]))"

text \<open>The loop over the codecs: the first that decodes, with the NUL characters removed.\<close>

fun first_decoded :: "pylib \<Rightarrow> encoding list \<Rightarrow> pybytes \<Rightarrow> pystr option" where
  "first_decoded L [] data = None"
| "first_decoded L (enc # encs) data =
     (case py_decode L enc data of
        None \<Rightarrow> first_decoded L encs data
      | Some decoded \<Rightarrow>
          Some (if py_contains [0] decoded then py_replace [0] [] decoded else decoded))"

definition decode_clipboard_bytes :: "pylib \<Rightarrow> pybytes \<Rightarrow> pystr" where
  "decode_clipboard_bytes L raw_data =
     (if raw_data = [] then []
      else
        (case decode_attempt L raw_data of
           (data, encodings) \<Rightarrow>
             (case first_decoded L encodings data of
                Some decoded \<Rightarrow> decoded
              | None \<Rightarrow> py_replace [0] [] (cd_utf8_ignore L data))))"

section \<open>Runs\<close>

text \<open>
  A run is a pair of a text and its bold flag. Both parsers add text through the same
  \<open>_append\<close>: nothing for an empty text, a longer last run when the flag is the last
  run's, a new run otherwise.
\<close>

type_synonym run = "pystr \<times> bool"

definition append_run :: "run list \<Rightarrow> pystr \<Rightarrow> bool \<Rightarrow> run list" where
  "append_run runs text is_bold =
     (if text = [] then runs
      else if runs \<noteq> [] \<and> snd (last runs) = is_bold
      then butlast runs @ [(fst (last runs) @ text, is_bold)]
      else runs @ [(text, is_bold)])"

section \<open>The legacy rich-text parser\<close>

record rtf_state =
  rtf_runs :: "run list"
  rtf_bold :: bool
  rtf_bold_stack :: "bool list"
  rtf_uc_skip :: int
  rtf_pending_skip :: int

definition rtf_init :: rtf_state where
  "rtf_init =
     \<lparr>rtf_runs = [], rtf_bold = False, rtf_bold_stack = [], rtf_uc_skip = 1,
      rtf_pending_skip = 0\<rparr>"

text \<open>\<open>_append(text)\<close> with the current bold state, and \<open>_append(text, is_bold)\<close>.\<close>

definition rtf_append :: "rtf_state \<Rightarrow> pystr \<Rightarrow> rtf_state" where
  "rtf_append st text = st\<lparr>rtf_runs := append_run (rtf_runs st) text (rtf_bold st)\<rparr>"

definition rtf_append_as :: "rtf_state \<Rightarrow> pystr \<Rightarrow> bool \<Rightarrow> rtf_state" where
  "rtf_append_as st text is_bold = st\<lparr>rtf_runs := append_run (rtf_runs st) text is_bold\<rparr>"

text \<open>
  \<open>_read_control_word\<close>, on the text from \<open>index\<close> on: the letters of the word, an
  optional sign, the digits of the number, and one space that ends the word. The result
  holds the text that is left. \<open>int()\<close> raises on a digit that is no decimal digit; that
  is \<open>None\<close>.
\<close>

definition read_control_word :: "pylib \<Rightarrow> pystr \<Rightarrow> (pystr \<times> int option \<times> pystr) option" where
  "read_control_word L s =
     (let word = takeWhile (py_isalpha L) s;
          s1 = dropWhile (py_isalpha L) s;
          signed = (s1 \<noteq> [] \<and> (hd s1 = 45 \<or> hd s1 = 43));
          sign = (if signed \<and> hd s1 = 45 then -1 else 1);
          s2 = (if signed then tl s1 else s1);
          digits = takeWhile (py_isdigit L) s2;
          s3 = dropWhile (py_isdigit L) s2;
          s4 = (if s3 \<noteq> [] \<and> hd s3 = 32 then tl s3 else s3)
      in if digits = [] then Some (word, None, s4)
         else (case py_int L digits of
                 None \<Rightarrow> None
               | Some k \<Rightarrow> Some (word, Some (sign * int k), s4)))"

definition hex_digit :: "nat \<Rightarrow> nat option" where
  "hex_digit c =
     (if ascii_digit c then Some (c - 48)
      else if 97 \<le> c \<and> c \<le> 102 then Some (c - 87)
      else if 65 \<le> c \<and> c \<le> 70 then Some (c - 55)
      else None)"

text \<open>
  \<open>bytes.fromhex(hex_value).decode("cp1252")\<close> for the two characters after \<open>\'\<close>; the
  empty text when either call raises, since the source passes over the exception.
\<close>

definition rtf_hex_text :: "pylib \<Rightarrow> pystr \<Rightarrow> pystr" where
  "rtf_hex_text L hex_value =
     (case map hex_digit hex_value of
        [Some x, Some y] \<Rightarrow>
          (case cd_decode L CP1252 [of_nat (16 * x + y)] of None \<Rightarrow> [] | Some t \<Rightarrow> t)
      | _ \<Rightarrow> [])"

text \<open>A control symbol that is no letter.\<close>

definition rtf_symbol :: "rtf_state \<Rightarrow> nat \<Rightarrow> rtf_state" where
  "rtf_symbol st symbol =
     (if symbol = 126 then rtf_append st [32]
      else if symbol = 95 then rtf_append st [45]
      else if symbol = 45 then rtf_append st [45]
      else st)"

text \<open>The effect of a control word. \<open>chr\<close> raises beyond \<open>0x10FFFF\<close> and below 0.\<close>

definition rtf_control :: "rtf_state \<Rightarrow> pystr \<Rightarrow> int option \<Rightarrow> rtf_state" where
  "rtf_control st word number =
     (if word = ustr ''b'' then st\<lparr>rtf_bold := (if number = Some 0 then False else True)\<rparr>
      else if word = ustr ''par'' \<or> word = ustr ''line'' then rtf_append_as st [10] False
      else if word = ustr ''tab'' then rtf_append st [9]
      else if word = ustr ''emdash'' \<or> word = ustr ''endash'' then rtf_append st [45]
      else if word = ustr ''bullet'' then rtf_append_as st [45, 32] False
      else if word = ustr ''u'' \<and> number \<noteq> None then
        (let codepoint = (if 0 \<le> the number then the number else the number + 65536);
             st' = (if 0 \<le> codepoint \<and> codepoint \<le> 1114111
                    then rtf_append st [nat codepoint] else st)
         in st'\<lparr>rtf_pending_skip := max 0 (rtf_uc_skip st')\<rparr>)
      else if word = ustr ''uc'' \<and> number \<noteq> None \<and> 0 \<le> the number
      then st\<lparr>rtf_uc_skip := the number\<rparr>
      else st)"

definition rtf_special :: "nat \<Rightarrow> bool" where
  "rtf_special ch = (ch = 92 \<or> ch = 123 \<or> ch = 125)"

text \<open>
  The loop of \<open>parse\<close> over the text that is left. \<open>None\<close> is the exception that
  \<open>_read_control_word\<close> can raise.
\<close>

function rtf_loop :: "pylib \<Rightarrow> rtf_state \<Rightarrow> pystr \<Rightarrow> rtf_state option" where
  "rtf_loop L st [] = Some st"
| "rtf_loop L st (ch # rest) =
     (if 0 < rtf_pending_skip st \<and> \<not> rtf_special ch
      then rtf_loop L (st\<lparr>rtf_pending_skip := rtf_pending_skip st - 1\<rparr>) rest
      else if ch = 123
      then rtf_loop L (st\<lparr>rtf_bold_stack := rtf_bold_stack st @ [rtf_bold st]\<rparr>) rest
      else if ch = 125
      then rtf_loop L
             (if rtf_bold_stack st \<noteq> []
              then st\<lparr>rtf_bold := last (rtf_bold_stack st),
                      rtf_bold_stack := butlast (rtf_bold_stack st)\<rparr>
              else st) rest
      else if ch \<noteq> 92 then rtf_loop L (rtf_append st [ch]) rest
      else
        (case rest of
           [] \<Rightarrow> Some st
         | symbol # after \<Rightarrow>
             if rtf_special symbol then rtf_loop L (rtf_append st [symbol]) after
             else if symbol = 39 then
               (if 2 \<le> length after
                then rtf_loop L (rtf_append st (rtf_hex_text L (take 2 after))) (drop 2 after)
                else rtf_loop L st after)
             else if \<not> py_isalpha L symbol then rtf_loop L (rtf_symbol st symbol) after
             else
               (case read_control_word L rest of
                  None \<Rightarrow> None
                | Some (word, number, left) \<Rightarrow>
                    rtf_loop L (rtf_control st word number) left)))"
  by pat_completeness auto
termination
proof -
  have shorter: "length left \<le> length s"
    if "read_control_word L s = Some (word, number, left)" for L s word number left
  proof -
    define s1 where "s1 = dropWhile (py_isalpha L) s"
    define s2 where "s2 = (if s1 \<noteq> [] \<and> (hd s1 = 45 \<or> hd s1 = 43) then tl s1 else s1)"
    define s3 where "s3 = dropWhile (py_isdigit L) s2"
    define s4 where "s4 = (if s3 \<noteq> [] \<and> hd s3 = 32 then tl s3 else s3)"
    have "left = s4"
      using that unfolding read_control_word_def Let_def s1_def s2_def s3_def s4_def
      by (auto split: if_splits option.splits)
    moreover have "length s4 \<le> length s3" by (simp add: s4_def)
    moreover have "length s3 \<le> length s2" unfolding s3_def by (rule length_dropWhile_le)
    moreover have "length s2 \<le> length s1" by (simp add: s2_def)
    moreover have "length s1 \<le> length s" unfolding s1_def by (rule length_dropWhile_le)
    ultimately show ?thesis by simp
  qed
  show ?thesis
    by (relation "measure (\<lambda>(L, st, s). length s)") (auto dest!: shorter)
qed

definition rtf_parse :: "pylib \<Rightarrow> pystr \<Rightarrow> run list option" where
  "rtf_parse L rtf_text = map_option rtf_runs (rtf_loop L rtf_init rtf_text)"

section \<open>The style predicate\<close>

definition ci_flags :: rxflags where
  "ci_flags = RxFlags True False False"

definition ci_dotall_flags :: rxflags where
  "ci_dotall_flags = RxFlags True True False"

definition dotall_flags :: rxflags where
  "dotall_flags = RxFlags False True False"

text \<open>\<open>m.group(n)\<close>, with the empty text for a group that took no part in the match.\<close>

definition group_text :: "rmatch \<Rightarrow> nat \<Rightarrow> pystr" where
  "group_text m n = (case rx_group m n of None \<Rightarrow> [] | Some g \<Rightarrow> g)"

definition rx_space :: rx where
  "rx_space = Set [CSpace]"

text \<open>\<open>[A-Za-z0-9_-]\<close>\<close>

definition rx_name_char :: rx where
  "rx_name_char = Set [CRng 65 90, CRng 97 122, CRng 48 57, CChr 95, CChr 45]"

text \<open>\<open>\s*!important\s*$\<close>\<close>

definition rx_important :: rx where
  "rx_important = rx_seq [Star rx_space, rx_str ''!important'', Star rx_space, Dollar]"

text \<open>\<open>var\(\s*(--[A-Za-z0-9_-]+)\s*(?:,\s*([^)]+))?\)\<close>\<close>

definition rx_var :: rx where
  "rx_var =
     rx_seq [rx_str ''var('', Star rx_space, Grp 1 (Seq (rx_str ''--'') (Plus rx_name_char)),
             Star rx_space, Opt (rx_seq [Chr 44, Star rx_space, Grp 2 (Plus (NSet [CChr 41]))]),
             Chr 41]"

text \<open>
  \<open>_resolve_css_value\<close>. The call sites pass a string, never \<open>None\<close>. A variable table is
  a map; looking a name up in an empty table gives the empty text, as the source's test
  of the table does.
\<close>

type_synonym css_vars = "pystr \<rightharpoonup> pystr"

function resolve_css_value :: "pylib \<Rightarrow> css_vars \<Rightarrow> pystr \<Rightarrow> nat \<Rightarrow> pystr" where
  "resolve_css_value L vars v depth =
     (if 6 < depth then py_strip v
      else if py_strip v = [] then []
      else
        (let text = py_strip (rx_sub L ci_flags rx_important [] (py_strip v)) in
         case rx_match L str_flags rx_var text of
           None \<Rightarrow> text
         | Some var_match \<Rightarrow>
             (let var_name = py_casefold L (group_text var_match 1);
                  fallback = py_strip (group_text var_match 2);
                  found = (case vars var_name of None \<Rightarrow> [] | Some r \<Rightarrow> r);
                  resolved = (if found = [] then fallback else found)
              in resolve_css_value L vars resolved (depth + 1))))"
  by pat_completeness auto
termination
  by (relation "measure (\<lambda>(L, vars, v, depth). 7 - depth)") auto

text \<open>\<open>name\s*:\s*([^;]+)\<close> for a property name.\<close>

definition rx_property :: "string \<Rightarrow> rx" where
  "rx_property name =
     rx_seq [rx_str name, Star rx_space, Chr 58, Star rx_space, Grp 1 (Plus (NSet [CChr 59]))]"

text \<open>\<open>\b(bold|bolder|semibold|demibold|black)\b\<close> and \<open>\b([5-9]00)\b\<close>\<close>

definition rx_bold_word :: rx where
  "rx_bold_word =
     rx_seq [WordB,
             Grp 1 (Alt (rx_str ''bold'') (Alt (rx_str ''bolder'') (Alt (rx_str ''semibold'')
                     (Alt (rx_str ''demibold'') (rx_str ''black''))))),
             WordB]"

definition rx_bold_hundreds :: rx where
  "rx_bold_hundreds = rx_seq [WordB, Grp 1 (Seq (Set [CRng 53 57]) (rx_str ''00'')), WordB]"

text \<open>\<open>([0-9]{3,4})\<close> and \<open>['\"]?wght['\"]?\s*([0-9]{2,4})\<close>\<close>

definition rx_weight_number :: rx where
  "rx_weight_number = Grp 1 (Rep True 3 (Some 4) (Set [CRng 48 57]))"

definition rx_wght :: rx where
  "rx_wght =
     rx_seq [Opt (Set [CChr 39, CChr 34]), rx_str ''wght'', Opt (Set [CChr 39, CChr 34]),
             Star rx_space, Grp 1 (Rep True 2 (Some 4) (Set [CRng 48 57]))]"

text \<open>\<open>int(m.group(1)) >= 500\<close>; an exception of \<open>int\<close> is passed over.\<close>

definition at_least_500 :: "pylib \<Rightarrow> pystr \<Rightarrow> bool" where
  "at_least_500 L digits = (case py_int L digits of None \<Rightarrow> False | Some k \<Rightarrow> 500 \<le> k)"

definition font_shorthand_bold :: "pylib \<Rightarrow> css_vars \<Rightarrow> pystr \<Rightarrow> bool" where
  "font_shorthand_bold L vars lowered =
     (case rx_search L str_flags (rx_property ''font'') lowered of
        None \<Rightarrow> False
      | Some font_match \<Rightarrow>
          (let font_value = resolve_css_value L vars (group_text font_match 1) 0 in
           if rx_search L str_flags rx_bold_word font_value \<noteq> None then True
           else rx_search L str_flags rx_bold_hundreds font_value \<noteq> None))"

definition bold_weight_names :: "pystr list" where
  "bold_weight_names =
     [ustr ''bold'', ustr ''bolder'', ustr ''semibold'', ustr ''demibold'', ustr ''medium'',
      ustr ''black'']"

definition font_weight_bold :: "pylib \<Rightarrow> css_vars \<Rightarrow> pystr \<Rightarrow> bool" where
  "font_weight_bold L vars lowered =
     (case rx_search L str_flags (rx_property ''font-weight'') lowered of
        None \<Rightarrow> False
      | Some m \<Rightarrow>
          (let v = py_strip (resolve_css_value L vars (group_text m 1) 0) in
           if List.member bold_weight_names v then True
           else (case rx_match L str_flags rx_weight_number v of
                   None \<Rightarrow> False
                 | Some number_match \<Rightarrow> at_least_500 L (group_text number_match 1))))"

definition font_variation_bold :: "pylib \<Rightarrow> css_vars \<Rightarrow> pystr \<Rightarrow> bool" where
  "font_variation_bold L vars lowered =
     (case rx_search L str_flags (rx_property ''font-variation-settings'') lowered of
        None \<Rightarrow> False
      | Some variation_match \<Rightarrow>
          (let variation_value = resolve_css_value L vars (group_text variation_match 1) 0 in
           case rx_search L str_flags rx_wght variation_value of
             None \<Rightarrow> False
           | Some wght_match \<Rightarrow> at_least_500 L (group_text wght_match 1)))"

text \<open>The substrings that make a font family or a \<open>face\<close> attribute bold.\<close>

definition names_bold_face :: "pystr \<Rightarrow> bool" where
  "names_bold_face s =
     (py_contains (ustr ''bold'') s \<or> py_contains (ustr ''black'') s
      \<or> py_contains (ustr ''semibold'') s \<or> py_contains (ustr ''demibold'') s)"

definition font_family_bold :: "pylib \<Rightarrow> css_vars \<Rightarrow> pystr \<Rightarrow> bool" where
  "font_family_bold L vars lowered =
     (case rx_search L str_flags (rx_property ''font-family'') lowered of
        None \<Rightarrow> False
      | Some family_match \<Rightarrow>
          names_bold_face (resolve_css_value L vars (group_text family_match 1) 0))"

definition style_implies_bold :: "pylib \<Rightarrow> pystr \<Rightarrow> css_vars \<Rightarrow> bool" where
  "style_implies_bold L style_text vars =
     (if style_text = [] then False
      else
        (let lowered = py_casefold L style_text in
         if font_shorthand_bold L vars lowered then True
         else if font_weight_bold L vars lowered then True
         else if font_variation_bold L vars lowered then True
         else font_family_bold L vars lowered))"

section \<open>The style map builder\<close>

text \<open>
  \<open><style[^>]*>(.*?)</style>\<close>, \<open>([^{}]+)\{([^{}]+)\}\<close>,
  \<open>(--[A-Za-z0-9_-]+)\s*:\s*([^;]+)\<close> and \<open>\.([A-Za-z0-9_-]+)\<close>
\<close>

definition rx_style_block :: rx where
  "rx_style_block =
     rx_seq [rx_str ''<style'', Star (NSet [CChr 62]), Chr 62, Grp 1 (LazyStar Dot),
             rx_str ''</style>'']"

definition rx_css_rule :: rx where
  "rx_css_rule =
     rx_seq [Grp 1 (Plus (NSet [CChr 123, CChr 125])), Chr 123,
             Grp 2 (Plus (NSet [CChr 123, CChr 125])), Chr 125]"

definition rx_var_decl :: rx where
  "rx_var_decl =
     rx_seq [Grp 1 (Seq (rx_str ''--'') (Plus rx_name_char)), Star rx_space, Chr 58,
             Star rx_space, Grp 2 (Plus (NSet [CChr 59]))]"

definition rx_class_selector :: rx where
  "rx_class_selector = Seq (Chr 46) (Grp 1 (Plus rx_name_char))"

type_synonym class_bold_map = "pystr \<rightharpoonup> bool"

record style_maps =
  sm_class_bold_map :: class_bold_map
  sm_css_vars :: css_vars

text \<open>The selector and declaration pairs of all style blocks, in order.\<close>

definition css_rules :: "pylib \<Rightarrow> pystr \<Rightarrow> (pystr \<times> pystr) list" where
  "css_rules L html_text =
     concat (map (\<lambda>block_match.
                    map (\<lambda>m. (group_text m 1, group_text m 2))
                      (rx_finditer L dotall_flags rx_css_rule (group_text block_match 1)))
              (rx_finditer L ci_dotall_flags rx_style_block html_text))"

definition declare_vars :: "pylib \<Rightarrow> css_vars \<Rightarrow> pystr \<Rightarrow> css_vars" where
  "declare_vars L vars declarations =
     foldl (\<lambda>acc m. acc(py_casefold L (group_text m 1) \<mapsto> py_strip (group_text m 2)))
       vars (rx_finditer L ci_flags rx_var_decl declarations)"

definition mark_classes :: "pylib \<Rightarrow> css_vars \<Rightarrow> class_bold_map \<Rightarrow> pystr \<times> pystr \<Rightarrow> class_bold_map" where
  "mark_classes L vars acc rule =
     (if \<not> style_implies_bold L (snd rule) vars then acc
      else foldl (\<lambda>acc' m. acc'(group_text m 1 \<mapsto> True)) acc
             (rx_finditer L str_flags rx_class_selector (fst rule)))"

definition extract_html_style_maps :: "pylib \<Rightarrow> pystr \<Rightarrow> style_maps" where
  "extract_html_style_maps L html_text =
     (if html_text = [] then \<lparr>sm_class_bold_map = Map.empty, sm_css_vars = Map.empty\<rparr>
      else
        (let rules = css_rules L html_text;
             vars = foldl (\<lambda>acc rule. declare_vars L acc (snd rule)) Map.empty rules;
             classes = foldl (mark_classes L vars) Map.empty rules
         in \<lparr>sm_class_bold_map = classes, sm_css_vars = vars\<rparr>))"

section \<open>The markup run parser\<close>

text \<open>
  The state of \<open>ClipboardHtmlRunParser\<close>. The counters are Python integers. The class
  table and the variable table are fixed when the parser is made.
\<close>

record html_state =
  h_runs :: "run list"
  h_bold_depth :: int
  h_skip_depth :: int
  h_tag_stack :: "(pystr \<times> bool) list"
  h_li_depth :: int

definition html_init :: html_state where
  "html_init =
     \<lparr>h_runs = [], h_bold_depth = 0, h_skip_depth = 0, h_tag_stack = [], h_li_depth = 0\<rparr>"

definition block_tags :: "pystr list" where
  "block_tags =
     [ustr ''p'', ustr ''div'', ustr ''section'', ustr ''article'', ustr ''header'',
      ustr ''footer'', ustr ''aside'', ustr ''blockquote'', ustr ''pre'', ustr ''ul'',
      ustr ''ol'', ustr ''table'', ustr ''tr'', ustr ''h1'', ustr ''h2'', ustr ''h3'',
      ustr ''h4'', ustr ''h5'', ustr ''h6'']"

text \<open>
  \<open>{k.lower(): (v or "") for k, v in attrs}\<close>: a later attribute of the same name wins.
\<close>

definition attr_map :: "pylib \<Rightarrow> (pystr \<times> pystr option) list \<Rightarrow> (pystr \<rightharpoonup> pystr)" where
  "attr_map L attrs =
     map_of (rev (map (\<lambda>(k, v). (py_lower L k, case v of None \<Rightarrow> [] | Some x \<Rightarrow> x)) attrs))"

definition attr_get :: "(pystr \<rightharpoonup> pystr) \<Rightarrow> pystr \<Rightarrow> pystr" where
  "attr_get m name = (case m name of None \<Rightarrow> [] | Some v \<Rightarrow> v)"

definition attrs_imply_bold ::
  "pylib \<Rightarrow> class_bold_map \<Rightarrow> css_vars \<Rightarrow> (pystr \<times> pystr option) list \<Rightarrow> bool"
where
  "attrs_imply_bold L class_bold vars attrs =
     (let m = attr_map L attrs in
      if style_implies_bold L (attr_get m (ustr ''style'')) vars then True
      else if attr_get m (ustr ''face'') \<noteq> []
              \<and> names_bold_face (py_casefold L (attr_get m (ustr ''face''))) then True
      else if attr_get m (ustr ''class'') \<noteq> [] then
        list_ex (\<lambda>class_name. class_name \<noteq> [] \<and> class_bold class_name = Some True)
          (rx_split L str_flags (Plus rx_space) (py_strip (attr_get m (ustr ''class''))))
      else False)"

definition html_append :: "html_state \<Rightarrow> pystr \<Rightarrow> bool \<Rightarrow> html_state" where
  "html_append st text is_bold = st\<lparr>h_runs := append_run (h_runs st) text is_bold\<rparr>"

definition html_append_newline :: "html_state \<Rightarrow> html_state" where
  "html_append_newline st =
     (if h_runs st = [] then st
      else if py_endswith (fst (last (h_runs st))) [10] then st
      else html_append st [10] False)"

definition skipped_tag :: "pystr \<Rightarrow> bool" where
  "skipped_tag lowered = (lowered = ustr ''script'' \<or> lowered = ustr ''style'')"

text \<open>\<open>b\<close>, \<open>strong\<close>, \<open>th\<close> and the headings \<open>h\<close> with a digit.\<close>

definition bold_tag :: "pylib \<Rightarrow> pystr \<Rightarrow> bool" where
  "bold_tag L lowered =
     (lowered = ustr ''b'' \<or> lowered = ustr ''strong'' \<or> lowered = ustr ''th''
      \<or> (length lowered = 2 \<and> py_startswith lowered (ustr ''h'') \<and> py_isdigit L (lowered ! 1)))"

definition handle_starttag ::
  "pylib \<Rightarrow> class_bold_map \<Rightarrow> css_vars \<Rightarrow> html_state \<Rightarrow> pystr \<Rightarrow> (pystr \<times> pystr option) list \<Rightarrow>
   html_state"
where
  "handle_starttag L class_bold vars st tag attrs =
     (let lowered = py_lower L tag in
      if skipped_tag lowered then st\<lparr>h_skip_depth := h_skip_depth st + 1\<rparr>
      else if 0 < h_skip_depth st then st
      else if lowered = ustr ''br'' then html_append st [10] False
      else
        (let st1 = (if lowered = ustr ''li''
                    then (html_append (html_append_newline st) [45, 32] False)
                           \<lparr>h_li_depth := h_li_depth st + 1\<rparr>
                    else st);
             pushes_bold = (if bold_tag L lowered then True
                            else attrs_imply_bold L class_bold vars attrs);
             st2 = (if pushes_bold then st1\<lparr>h_bold_depth := h_bold_depth st1 + 1\<rparr> else st1)
         in st2\<lparr>h_tag_stack := h_tag_stack st2 @ [(lowered, pushes_bold)]\<rparr>))"

text \<open>
  The scan of the tag stack from its top: the stack without the topmost entry of that
  name, and the entry's flag; \<open>None\<close> when no entry has the name.
\<close>

fun pop_tag :: "pystr \<Rightarrow> (pystr \<times> bool) list \<Rightarrow> ((pystr \<times> bool) list \<times> bool) option" where
  "pop_tag lowered [] = None"
| "pop_tag lowered (e # es) =
     (case pop_tag lowered es of
        Some (es', pushes_bold) \<Rightarrow> Some (e # es', pushes_bold)
      | None \<Rightarrow> if fst e = lowered then Some (es, snd e) else None)"

definition handle_endtag :: "pylib \<Rightarrow> html_state \<Rightarrow> pystr \<Rightarrow> html_state" where
  "handle_endtag L st tag =
     (let lowered = py_lower L tag in
      if skipped_tag lowered
      then (if 0 < h_skip_depth st then st\<lparr>h_skip_depth := h_skip_depth st - 1\<rparr> else st)
      else if 0 < h_skip_depth st then st
      else
        (let st1 = (case pop_tag lowered (h_tag_stack st) of
                      None \<Rightarrow> st
                    | Some (stack', pushes_bold) \<Rightarrow>
                        (if pushes_bold \<and> 0 < h_bold_depth st
                         then st\<lparr>h_tag_stack := stack', h_bold_depth := h_bold_depth st - 1\<rparr>
                         else st\<lparr>h_tag_stack := stack'\<rparr>))
         in if lowered = ustr ''li''
            then html_append_newline
                   (if 0 < h_li_depth st1 then st1\<lparr>h_li_depth := h_li_depth st1 - 1\<rparr> else st1)
            else if List.member block_tags lowered
            then (if h_li_depth st1 = 0 then html_append_newline st1 else st1)
            else st1))"

definition handle_data :: "html_state \<Rightarrow> pystr \<Rightarrow> html_state" where
  "handle_data st data =
     (if 0 < h_skip_depth st then st else html_append st data (0 < h_bold_depth st))"

text \<open>One handler call, and the calls that \<open>feed\<close> and \<open>close\<close> make on a fresh parser.\<close>

fun html_step :: "pylib \<Rightarrow> class_bold_map \<Rightarrow> css_vars \<Rightarrow> html_state \<Rightarrow> html_event \<Rightarrow> html_state" where
  "html_step L class_bold vars st (StartTag tag attrs) =
     handle_starttag L class_bold vars st tag attrs"
| "html_step L class_bold vars st (EndTag tag) = handle_endtag L st tag"
| "html_step L class_bold vars st (Data data) = handle_data st data"

definition html_run :: "pylib \<Rightarrow> class_bold_map \<Rightarrow> css_vars \<Rightarrow> html_event list \<Rightarrow> html_state" where
  "html_run L class_bold vars events = foldl (html_step L class_bold vars) html_init events"

text \<open>The runs of a candidate; \<open>None\<close> when \<open>feed\<close> or \<open>close\<close> raises.\<close>

definition parse_html_runs :: "pylib \<Rightarrow> class_bold_map \<Rightarrow> css_vars \<Rightarrow> pystr \<Rightarrow> run list option" where
  "parse_html_runs L class_bold vars candidate =
     map_option (\<lambda>events. h_runs (html_run L class_bold vars events)) (html_events L candidate)"

section \<open>The run normalizer\<close>

text \<open>\<open>[ \t]{2,}\<close>, \<open>\n[ \t]*-\s*\n\<close> and \<open>\n{3,}\<close>\<close>

definition rx_multispace :: rx where
  "rx_multispace = Rep True 2 None (Set [CChr 32, CChr 9])"

definition rx_lone_bullet :: rx where
  "rx_lone_bullet = rx_seq [Chr 10, Star (Set [CChr 32, CChr 9]), Chr 45, Star rx_space, Chr 10]"

definition rx_blank_lines :: rx where
  "rx_blank_lines = Rep True 3 None (Chr 10)"

definition normalize_captured_text :: "pylib \<Rightarrow> pystr \<Rightarrow> pystr" where
  "normalize_captured_text L text =
     (let normalized = py_replace [13] [10] (py_replace [13, 10] [10] text);
          normalized = py_replace [8239] [32] (py_replace [160] [32] normalized)
      in py_join [10] (map (rx_sub L str_flags rx_multispace [32]) (py_split_lines normalized)))"

text \<open>The cleaning of one run's text in the first loop of \<open>_normalize_captured_runs\<close>.\<close>

definition clean_run_text :: "pylib \<Rightarrow> pystr \<Rightarrow> pystr" where
  "clean_run_text L run_text =
     (let cleaned = normalize_captured_text L run_text;
          cleaned = py_replace [8226] [45] cleaned;
          cleaned = rx_sub L str_flags rx_lone_bullet [10, 45, 32] cleaned;
          cleaned = rx_sub L str_flags rx_blank_lines [10, 10] cleaned;
          cleaned = py_replace [10, 10, 45, 32] [10, 45, 32] cleaned
      in py_replace [10, 45, 32, 32] [10, 45, 32] cleaned)"

text \<open>The first loop: empty texts are dropped, a text of the last run's flag is joined to it.\<close>

fun merge_cleaned :: "pylib \<Rightarrow> run list \<Rightarrow> run list \<Rightarrow> run list" where
  "merge_cleaned L normalized [] = normalized"
| "merge_cleaned L normalized ((run_text, is_bold) # runs) =
     (let cleaned = clean_run_text L run_text in
      if cleaned = [] then merge_cleaned L normalized runs
      else if normalized \<noteq> [] \<and> snd (last normalized) = is_bold
      then merge_cleaned L
             (butlast normalized @ [(fst (last normalized) @ cleaned, is_bold)]) runs
      else merge_cleaned L (normalized @ [(cleaned, is_bold)]) runs)"

text \<open>
  The second loop, from the second run on: a run that starts with a space after a run
  that ends with one loses its leading spaces. \<open>prev\<close> is the text of the run before, as
  the loop left it.
\<close>

fun collapse_spaces :: "pystr \<Rightarrow> run list \<Rightarrow> run list" where
  "collapse_spaces prev [] = []"
| "collapse_spaces prev ((current, is_bold) # runs) =
     (if py_endswith prev [32] \<and> py_startswith current [32]
      then (py_lstrip_spaces current, is_bold) # collapse_spaces (py_lstrip_spaces current) runs
      else (current, is_bold) # collapse_spaces current runs)"

definition nonempty_runs :: "run list \<Rightarrow> run list" where
  "nonempty_runs runs = filter (\<lambda>item. fst item \<noteq> []) runs"

definition normalize_captured_runs :: "pylib \<Rightarrow> run list \<Rightarrow> run list" where
  "normalize_captured_runs L runs =
     (let normalized = merge_cleaned L [] runs in
      if normalized = [] then []
      else
        (let normalized = nonempty_runs (hd normalized # collapse_spaces (fst (hd normalized)) (tl normalized)) in
         if normalized = [] then []
         else
           (let normalized = normalized[0 := (py_lstrip (fst (normalized ! 0)), snd (normalized ! 0))];
                normalized = normalized[length normalized - 1 :=
                               (py_rstrip (fst (last normalized)), snd (last normalized))]
            in nonempty_runs normalized)))"

section \<open>Canonical text and similarity\<close>

text \<open>\<open>\n[ \t]*-\s*\<close> and \<open>\s+\<close>\<close>

definition rx_bullet_start :: rx where
  "rx_bullet_start = rx_seq [Chr 10, Star (Set [CChr 32, CChr 9]), Chr 45, Star rx_space]"

definition rx_spaces :: rx where
  "rx_spaces = Plus rx_space"

definition canonical_capture_text :: "pylib \<Rightarrow> pystr \<Rightarrow> pystr" where
  "canonical_capture_text L text =
     (if text = [] then []
      else
        (let canonical = normalize_captured_text L text;
             canonical = py_replace [8226] [45] canonical;
             canonical = rx_sub L str_flags rx_bullet_start [10] canonical;
             canonical = rx_sub L str_flags rx_spaces [32] canonical
         in py_casefold L (py_strip canonical)))"

definition capture_similarity :: "pylib \<Rightarrow> pystr \<Rightarrow> pystr \<Rightarrow> rat" where
  "capture_similarity L text_a text_b =
     (if text_a = [] \<or> text_b = [] then 0 else sm_ratio L text_a text_b)"

section \<open>The markup fragment extractor\<close>

text \<open>
  \<open><!--\s*StartFragment\s*-->(.*?)<!--\s*EndFragment\s*-->\<close>,
  \<open>StartFragment:(\d+).*?EndFragment:(\d+)\<close> and \<open><body[^>]*>(.*?)</body>\<close>
\<close>

definition rx_marker_pair :: rx where
  "rx_marker_pair =
     rx_seq [rx_str ''<!--'', Star rx_space, rx_str ''StartFragment'', Star rx_space,
             rx_str ''-->'', Grp 1 (LazyStar Dot), rx_str ''<!--'', Star rx_space,
             rx_str ''EndFragment'', Star rx_space, rx_str ''-->'']"

definition rx_text_offsets :: rx where
  "rx_text_offsets =
     rx_seq [rx_str ''StartFragment:'', Grp 1 (Plus (Set [CDigit])), LazyStar Dot,
             rx_str ''EndFragment:'', Grp 2 (Plus (Set [CDigit]))]"

definition rx_body :: rx where
  "rx_body =
     rx_seq [rx_str ''<body'', Star (NSet [CChr 62]), Chr 62, Grp 1 (LazyStar Dot),
             rx_str ''</body>'']"

text \<open>Two optional values, when both are there.\<close>

definition both :: "'a option \<Rightarrow> 'b option \<Rightarrow> ('a \<times> 'b) option" where
  "both x y = (case x of None \<Rightarrow> None | Some a \<Rightarrow> map_option (Pair a) y)"

text \<open>\<open>int(m.group(n))\<close>, outside any \<open>try\<close>: the exception of \<open>int\<close> is the caller's.\<close>

definition group_int :: "pylib \<Rightarrow> rmatch \<Rightarrow> nat \<Rightarrow> py_error + nat" where
  "group_int L m n = (case py_int L (group_text m n) of None \<Rightarrow> Inl ValueError | Some k \<Rightarrow> Inr k)"

text \<open>
  The slice that the offsets written in the text select, when the pattern matches and
  \<open>0 <= start < end <= len(html_text)\<close>.
\<close>

definition text_offset_slice :: "pylib \<Rightarrow> pystr \<Rightarrow> py_error + pystr option" where
  "text_offset_slice L html_text =
     (case rx_search L ci_dotall_flags rx_text_offsets html_text of
        None \<Rightarrow> Inr None
      | Some offset_match \<Rightarrow>
          (case group_int L offset_match 1 of
             Inl e \<Rightarrow> Inl e
           | Inr start \<Rightarrow>
               (case group_int L offset_match 2 of
                  Inl e \<Rightarrow> Inl e
                | Inr stop \<Rightarrow>
                    Inr (if start < stop \<and> stop \<le> length html_text
                         then Some (py_slice html_text start stop) else None))))"

definition extract_html_fragment_from_text :: "pylib \<Rightarrow> pystr \<Rightarrow> py_error + pystr" where
  "extract_html_fragment_from_text L html_text =
     (if html_text = [] then Inr []
      else
        (case rx_search L ci_dotall_flags rx_marker_pair html_text of
           Some marker_match \<Rightarrow> Inr (group_text marker_match 1)
         | None \<Rightarrow>
             (case text_offset_slice L html_text of
                Inl e \<Rightarrow> Inl e
              | Inr (Some fragment) \<Rightarrow> Inr fragment
              | Inr None \<Rightarrow>
                  (case rx_search L ci_dotall_flags rx_body html_text of
                     Some body_match \<Rightarrow> Inr (group_text body_match 1)
                   | None \<Rightarrow> Inr html_text))))"

text \<open>\<open>name(\d+)\<close> on bytes, for the header names \<open>StartHTML:\<close> and the like.\<close>

definition rx_header :: "string \<Rightarrow> rx" where
  "rx_header name = Seq (rx_str name) (Grp 1 (Plus (Set [CDigit])))"

definition header_match :: "pylib \<Rightarrow> string \<Rightarrow> pybytes \<Rightarrow> rmatch option" where
  "header_match L name trimmed = rx_search L bytes_flags (rx_header name) (ints_of trimmed)"

definition start_marker :: pybytes where
  "start_marker = bstr ''<!--StartFragment-->''"

definition end_marker :: pybytes where
  "end_marker = bstr ''<!--EndFragment-->''"

text \<open>
  The numbers of a pair of headers: \<open>None\<close> when one of the two is not found, and the
  outcome of reading both numbers otherwise. The numbers are read only when both headers
  are found.
\<close>

definition header_offsets ::
  "pylib \<Rightarrow> string \<Rightarrow> string \<Rightarrow> pybytes \<Rightarrow> (py_error + nat \<times> nat) option"
where
  "header_offsets L start_name end_name trimmed =
     (case both (header_match L start_name trimmed) (header_match L end_name trimmed) of
        None \<Rightarrow> None
      | Some (start_match, end_match) \<Rightarrow>
          Some (case group_int L start_match 1 of
                  Inl e \<Rightarrow> Inl e
                | Inr start \<Rightarrow>
                    (case group_int L end_match 1 of
                       Inl e \<Rightarrow> Inl e
                     | Inr stop \<Rightarrow> Inr (start, stop))))"

text \<open>\<open>html_bytes\<close>: the slice between valid \<open>StartHTML\<close> and \<open>EndHTML\<close>, or all bytes.\<close>

definition html_section :: "pylib \<Rightarrow> pybytes \<Rightarrow> py_error + pybytes" where
  "html_section L trimmed =
     (case header_offsets L ''StartHTML:'' ''EndHTML:'' trimmed of
        None \<Rightarrow> Inr trimmed
      | Some (Inl e) \<Rightarrow> Inl e
      | Some (Inr (html_start, html_end)) \<Rightarrow>
          Inr (if html_start < html_end \<and> html_end \<le> length trimmed
               then py_slice trimmed html_start html_end else trimmed))"

text \<open>
  \<open>fragment_bytes\<close>: with both fragment headers, the slice they select when they are
  valid and \<open>html_bytes\<close> when they are not; without them, what lies between the comment
  markers of \<open>html_bytes\<close>, or \<open>html_bytes\<close>.
\<close>

definition fragment_section :: "pylib \<Rightarrow> pybytes \<Rightarrow> pybytes \<Rightarrow> py_error + pybytes" where
  "fragment_section L trimmed html_bytes =
     (case header_offsets L ''StartFragment:'' ''EndFragment:'' trimmed of
        Some (Inl e) \<Rightarrow> Inl e
      | Some (Inr (start, stop)) \<Rightarrow>
          Inr (if start < stop \<and> stop \<le> length trimmed
               then py_slice trimmed start stop else html_bytes)
      | None \<Rightarrow>
          (let start = py_find html_bytes start_marker;
               stop = py_find html_bytes end_marker
           in Inr (if start \<noteq> -1 \<and> stop \<noteq> -1 \<and> start < stop
                   then py_slice html_bytes (nat start + length start_marker) (nat stop)
                   else html_bytes)))"

record html_payload =
  hp_fragment :: pystr
  hp_html_text :: pystr
  hp_class_bold_map :: class_bold_map
  hp_css_vars :: css_vars

definition make_payload :: "pylib \<Rightarrow> pystr \<Rightarrow> pystr \<Rightarrow> html_payload" where
  "make_payload L decoded_fragment decoded_html =
     \<lparr>hp_fragment = decoded_fragment, hp_html_text = decoded_html,
      hp_class_bold_map = sm_class_bold_map (extract_html_style_maps L decoded_html),
      hp_css_vars = sm_css_vars (extract_html_style_maps L decoded_html)\<rparr>"

text \<open>
  The second path of \<open>_read_clipboard_html_fragment\<close>, taken when the fragment bytes
  decode to the empty string: the raw payload is decoded and its fragment is extracted
  from the text.
\<close>

definition text_path_payload :: "pylib \<Rightarrow> pybytes \<Rightarrow> py_error + html_payload option" where
  "text_path_payload L raw_data =
     (let decoded_html = decode_clipboard_bytes L raw_data in
      case extract_html_fragment_from_text L decoded_html of
        Inl e \<Rightarrow> Inl e
      | Inr decoded_fragment \<Rightarrow>
          Inr (Some (make_payload L
                       (if decoded_fragment = [] then decoded_html else decoded_fragment)
                       decoded_html)))"

text \<open>
  \<open>_read_clipboard_html_fragment\<close>, on what the format reader returns for the markup
  formats: \<open>None\<close>, or the bytes of the payload. \<open>Inl\<close> is an exception that the function
  lets through, \<open>Inr None\<close> the value \<open>None\<close>.
\<close>

definition read_clipboard_html_fragment ::
  "pylib \<Rightarrow> pybytes option \<Rightarrow> py_error + html_payload option"
where
  "read_clipboard_html_fragment L raw =
     (case raw of
        None \<Rightarrow> Inr None
      | Some raw_data \<Rightarrow>
          if raw_data = [] then Inr None
          else
            (case html_section L (strip_nul_padding L raw_data) of
               Inl e \<Rightarrow> Inl e
             | Inr html_bytes \<Rightarrow>
                 (case fragment_section L (strip_nul_padding L raw_data) html_bytes of
                    Inl e \<Rightarrow> Inl e
                  | Inr fragment_bytes \<Rightarrow>
                      if decode_clipboard_bytes L fragment_bytes \<noteq> []
                      then Inr (Some (make_payload L (decode_clipboard_bytes L fragment_bytes)
                                        (decode_clipboard_bytes L html_bytes)))
                      else text_path_payload L raw_data)))"

section \<open>The capture reconciler\<close>

text \<open>
  What one read of the clipboard finds: the text \<open>clipboard_get\<close> returns (\<open>None\<close> when it
  raises), the bytes the format reader returns for the markup formats and for the
  rich-text formats, and the names of the formats that are available.
\<close>

record clipboard =
  cb_text :: "pystr option"
  cb_html :: "pybytes option"
  cb_rtf :: "pybytes option"
  cb_formats :: "pystr list"

datatype origin = FromHtml | FromRtf | FromText

datatype signature = RunsSignature origin "run list" | TextSignature pystr

record capture =
  cap_text :: pystr
  cap_runs :: "run list"
  cap_signature :: signature
  cap_source :: origin
  cap_detail :: "pystr option"

definition read_clipboard_text :: "pylib \<Rightarrow> clipboard \<Rightarrow> pystr option" where
  "read_clipboard_text L cb =
     (case cb_text cb of
        None \<Rightarrow> None
      | Some text \<Rightarrow>
          (let cleaned = py_strip (normalize_captured_text L text) in
           if cleaned = [] then None else Some cleaned))"

definition runs_text :: "run list \<Rightarrow> pystr" where
  "runs_text runs = concat (map fst runs)"

definition any_bold :: "run list \<Rightarrow> bool" where
  "any_bold runs = list_ex snd runs"

definition read_clipboard_rtf_runs :: "pylib \<Rightarrow> clipboard \<Rightarrow> run list" where
  "read_clipboard_rtf_runs L cb =
     (case cb_rtf cb of
        None \<Rightarrow> []
      | Some raw_data \<Rightarrow>
          (let rtf_text = decode_clipboard_bytes L raw_data in
           if rtf_text = [] then []
           else
             (let rtf_start = py_find rtf_text ([123, 92] @ ustr ''rtf'');
                  rtf_text = (if 0 < rtf_start then drop (nat rtf_start) rtf_text else rtf_text)
              in case rtf_parse L rtf_text of
                   None \<Rightarrow> []
                 | Some runs \<Rightarrow> normalize_captured_runs L runs)))"

text \<open>
  The candidates of a payload: its fragment, the fragment of its text, its text. The
  extraction from the text can raise.
\<close>

definition fragment_candidates :: "pylib \<Rightarrow> html_payload \<Rightarrow> py_error + pystr list" where
  "fragment_candidates L payload =
     (let c1 = (if hp_fragment payload \<noteq> [] then [hp_fragment payload] else []) in
      case extract_html_fragment_from_text L (hp_html_text payload) of
        Inl e \<Rightarrow> Inl e
      | Inr alt_fragment \<Rightarrow>
          (let c2 = (if alt_fragment \<noteq> [] \<and> \<not> List.member c1 alt_fragment
                     then c1 @ [alt_fragment] else c1)
           in Inr (if hp_html_text payload \<noteq> [] \<and> \<not> List.member c2 (hp_html_text payload)
                   then c2 @ [hp_html_text payload] else c2)))"

text \<open>
  The runs of a candidate that the loop scores: parsed, normalized, and not empty.
  \<open>None\<close> is a candidate that the loop passes over.
\<close>

definition candidate_runs :: "pylib \<Rightarrow> class_bold_map \<Rightarrow> css_vars \<Rightarrow> pystr \<Rightarrow> run list option" where
  "candidate_runs L class_bold vars candidate =
     (case parse_html_runs L class_bold vars candidate of
        None \<Rightarrow> None
      | Some parsed \<Rightarrow>
          (let runs = normalize_captured_runs L parsed in
           if runs = [] then None
           else if runs_text runs = [] then None
           else Some runs))"

definition candidate_similarity :: "pylib \<Rightarrow> pystr \<Rightarrow> run list \<Rightarrow> rat" where
  "candidate_similarity L canonical_plain_text runs =
     capture_similarity L (canonical_capture_text L (runs_text runs)) canonical_plain_text"

type_synonym score = "int \<times> rat \<times> int \<times> int"

definition candidate_score :: "pylib \<Rightarrow> pystr \<Rightarrow> run list \<Rightarrow> score" where
  "candidate_score L canonical_plain_text runs =
     (let candidate_text = runs_text runs;
          candidate_canonical = canonical_capture_text L candidate_text;
          bold_chars = sum_list (map (\<lambda>r. int (length (fst r))) (filter snd runs));
          length_delta = \<bar>int (length candidate_canonical) - int (length canonical_plain_text)\<bar>
      in (if 0 < bold_chars then 1 else 0,
          candidate_similarity L canonical_plain_text runs,
          - length_delta,
          int (length candidate_text)))"

text \<open>
  The loop over the candidates, with \<open>best_runs\<close>, \<open>best_score\<close> and \<open>best_similarity\<close>.
  Tuples compare lexicographically.
\<close>

type_synonym best = "run list option \<times> score \<times> rat"

definition best_start :: best where
  "best_start = (None, (-1, -1, - (10 ^ 9), -1), 0)"

fun best_candidate ::
  "pylib \<Rightarrow> class_bold_map \<Rightarrow> css_vars \<Rightarrow> pystr \<Rightarrow> best \<Rightarrow> pystr list \<Rightarrow> best"
where
  "best_candidate L class_bold vars canonical_plain_text best [] = best"
| "best_candidate L class_bold vars canonical_plain_text best (candidate # candidates) =
     (case candidate_runs L class_bold vars candidate of
        None \<Rightarrow> best_candidate L class_bold vars canonical_plain_text best candidates
      | Some runs \<Rightarrow>
          if fst (snd best) < candidate_score L canonical_plain_text runs
          then best_candidate L class_bold vars canonical_plain_text
                 (Some runs, candidate_score L canonical_plain_text runs,
                  candidate_similarity L canonical_plain_text runs) candidates
          else best_candidate L class_bold vars canonical_plain_text best candidates)"

definition runs_capture :: "origin \<Rightarrow> run list \<Rightarrow> capture" where
  "runs_capture src runs =
     \<lparr>cap_text = runs_text runs, cap_runs = runs, cap_signature = RunsSignature src runs,
      cap_source = src, cap_detail = None\<rparr>"

text \<open>
  The markup capture for a list of candidates: that of the best runs, when there are
  some and the canonical plain text is empty or the best similarity is at least 0.28.
  The float \<open>0.28\<close> stands for the rational of the same digits.
\<close>

definition select_html_capture ::
  "pylib \<Rightarrow> class_bold_map \<Rightarrow> css_vars \<Rightarrow> pystr \<Rightarrow> pystr list \<Rightarrow> capture option"
where
  "select_html_capture L class_bold vars canonical_plain_text candidates =
     (case best_candidate L class_bold vars canonical_plain_text best_start candidates of
        (None, best_score, best_similarity) \<Rightarrow> None
      | (Some best_runs, best_score, best_similarity) \<Rightarrow>
          if canonical_plain_text = [] \<or> 28 / 100 \<le> best_similarity
          then Some (runs_capture FromHtml best_runs) else None)"

definition canonical_plain :: "pylib \<Rightarrow> clipboard \<Rightarrow> pystr" where
  "canonical_plain L cb =
     canonical_capture_text L (case read_clipboard_text L cb of None \<Rightarrow> [] | Some t \<Rightarrow> t)"

definition html_capture :: "pylib \<Rightarrow> clipboard \<Rightarrow> py_error + capture option" where
  "html_capture L cb =
     (case read_clipboard_html_fragment L (cb_html cb) of
        Inl e \<Rightarrow> Inl e
      | Inr None \<Rightarrow> Inr None
      | Inr (Some payload) \<Rightarrow>
          (case fragment_candidates L payload of
             Inl e \<Rightarrow> Inl e
           | Inr candidates \<Rightarrow>
               Inr (select_html_capture L (hp_class_bold_map payload) (hp_css_vars payload)
                      (canonical_plain L cb) candidates)))"

definition rtf_capture :: "pylib \<Rightarrow> clipboard \<Rightarrow> capture option" where
  "rtf_capture L cb =
     (let rtf_runs = read_clipboard_rtf_runs L cb in
      if rtf_runs \<noteq> [] \<and> runs_text rtf_runs \<noteq> [] then Some (runs_capture FromRtf rtf_runs)
      else None)"

text \<open>The diagnostic of the plain capture: a verdict and the first six format names.\<close>

definition names_like :: "pylib \<Rightarrow> string \<Rightarrow> pystr list \<Rightarrow> bool" where
  "names_like L word names = list_ex (\<lambda>name. py_contains (ustr word) (py_casefold L name)) names"

definition visible_formats :: "pystr list \<Rightarrow> pystr" where
  "visible_formats available_formats =
     (if available_formats \<noteq> [] then py_join (ustr '', '') (take 6 available_formats)
      else ustr ''none'')"

definition plain_detail :: "pylib \<Rightarrow> pystr list \<Rightarrow> pystr" where
  "plain_detail L available_formats =
     (if names_like L ''html'' available_formats \<or> names_like L ''rtf'' available_formats
      then ustr ''fant html/rtf format men klarte ikke lese bold. formater: ''
             @ visible_formats available_formats
      else ustr ''ingen html/rtf format i clipboard. formater: ''
             @ visible_formats available_formats)"

definition plain_capture :: "pylib \<Rightarrow> clipboard \<Rightarrow> pystr \<Rightarrow> capture" where
  "plain_capture L cb text =
     \<lparr>cap_text = text, cap_runs = [(text, False)], cap_signature = TextSignature text,
      cap_source = FromText, cap_detail = Some (plain_detail L (cb_formats cb))\<rparr>"

definition has_bold_run :: "capture option \<Rightarrow> bool" where
  "has_bold_run c = (case c of None \<Rightarrow> False | Some x \<Rightarrow> any_bold (cap_runs x))"

text \<open>The final selection, for the markup capture and the rich-text capture.\<close>

definition choose_capture ::
  "pylib \<Rightarrow> clipboard \<Rightarrow> capture option \<Rightarrow> capture option \<Rightarrow> capture option"
where
  "choose_capture L cb html rtf =
     (if has_bold_run html then html
      else if has_bold_run rtf then rtf
      else if html \<noteq> None then html
      else if rtf \<noteq> None then rtf
      else (case read_clipboard_text L cb of
              None \<Rightarrow> None
            | Some text \<Rightarrow> Some (plain_capture L cb text)))"

text \<open>
  \<open>_read_clipboard_capture\<close>. An exception of the markup extraction goes through it.
\<close>

definition read_clipboard_capture :: "pylib \<Rightarrow> clipboard \<Rightarrow> py_error + capture option" where
  "read_clipboard_capture L cb =
     (case html_capture L cb of
        Inl e \<Rightarrow> Inl e
      | Inr html \<Rightarrow> Inr (choose_capture L cb html (rtf_capture L cb)))"

section \<open>Inputs of the evaluations\<close>



section \<open>The candidates that are scored\<close>

text \<open>
  The runs of the candidates that the loop of \<open>_read_clipboard_capture\<close> scores, in the
  order of the candidates: those it does not pass over.
\<close>

definition scored_runs :: "pylib \<Rightarrow> class_bold_map \<Rightarrow> css_vars \<Rightarrow> pystr list \<Rightarrow> run list list" where
  "scored_runs L class_bold vars candidates =
     List.map_filter (candidate_runs L class_bold vars) candidates"


section \<open>A clipboard for the evaluations\<close>

text \<open>
  The markup \<open><b>Hello</b> world\<close> with the events \<open>HTMLParser\<close> delivers for it, and a
  library that knows these events and the ratio \<open>SequenceMatcher\<close> gives two equal texts
  (1) and two texts without a common character (0).
\<close>

definition hello_markup :: string where
  "hello_markup = ''<b>Hello</b> world''"

definition hello_events :: "html_event list" where
  "hello_events =
     [StartTag (ustr ''b'') [], Data (ustr ''Hello''), EndTag (ustr ''b''),
      Data (ustr '' world'')]"

definition hello_lib :: pylib where
  "hello_lib =
     ascii_lib
       \<lparr>html_events := (\<lambda>s. if s = ustr hello_markup then Some hello_events else None),
        sm_ratio := (\<lambda>a b. if a = b then 1 else 0)\<rparr>"

definition hello_clipboard :: "pystr \<Rightarrow> clipboard" where
  "hello_clipboard plain =
     \<lparr>cb_text = Some plain, cb_html = Some (bstr hello_markup), cb_rtf = None,
      cb_formats = [ustr ''HTML Format'', ustr ''CF_UNICODETEXT'']\<rparr>"

(*DEFS-END*)

section \<open>Evaluation\<close>

text \<open>
  The equations of the functions defined by well-founded recursion are unfolded on
  demand only. \<open>py_eval\<close> collects what the evaluation of a closed term unfolds.
\<close>

declare py_replace.simps [simp del]
declare rx_matches_from.simps [simp del]
declare utf8_strict.simps [simp del]
declare utf8_ignore.simps [simp del]
declare rtf_loop.simps [simp del]
declare resolve_css_value.simps [simp del]

lemmas py_eval =
  ustr_def bstr_def ints_of_def bytes_of_def
  is_ascii_def ascii_upper_def ascii_lower_def ascii_digit_def ascii_tolower_def
  ascii_swapcase_def
  py_isalpha_def py_isdigit_def py_decimal_def py_isalnum_def py_isspace_def ascii_isspace_def
  py_lower_def py_casefold_def
  py_startswith_def py_endswith_def py_find_def py_contains_def py_slice_def py_replace.simps
  py_lstrip_def py_rstrip_def py_strip_def py_lstrip_spaces_def py_int_def
  rx_str_def Star_def Plus_def Opt_def LazyStar_def chr_eq_def in_class_def is_word_def
  next_char_def rx_group_def rx_at_def rx_match_def rx_search_def rx_matches_from.simps
  rx_finditer_def rx_sub_def rx_split_def str_flags_def bytes_flags_def
  is_cont_def utf8_strict.simps utf8_ignore.simps cp1252_high_def cp1252_char_def
  utf16_strict_def utf16_bom_def ascii_lib_def
  py_decode_def zero_fraction_def sample_of_def looks_like_utf16le_def looks_like_utf16be_def
  starts_with_bom_def strip_nul_padding_def drop_odd_byte_def decode_attempt_def
  decode_clipboard_bytes_def Let_def
  scored_runs_def hello_markup_def hello_events_def hello_lib_def hello_clipboard_def
  rx_bullet_start_def rx_spaces_def canonical_capture_text_def capture_similarity_def rx_marker_pair_def rx_text_offsets_def rx_body_def both_def text_offset_slice_def extract_html_fragment_from_text_def rx_header_def group_int_def header_match_def header_offsets_def text_path_payload_def start_marker_def end_marker_def html_section_def fragment_section_def make_payload_def read_clipboard_html_fragment_def read_clipboard_text_def runs_text_def any_bold_def read_clipboard_rtf_runs_def fragment_candidates_def candidate_runs_def candidate_similarity_def candidate_score_def best_start_def runs_capture_def select_html_capture_def canonical_plain_def html_capture_def rtf_capture_def names_like_def visible_formats_def plain_detail_def plain_capture_def has_bold_run_def choose_capture_def read_clipboard_capture_def
  html_init_def block_tags_def attr_map_def attr_get_def attrs_imply_bold_def html_append_def html_append_newline_def skipped_tag_def bold_tag_def handle_starttag_def handle_endtag_def handle_data_def html_run_def parse_html_runs_def rx_multispace_def rx_lone_bullet_def rx_blank_lines_def normalize_captured_text_def clean_run_text_def nonempty_runs_def normalize_captured_runs_def
  ci_flags_def ci_dotall_flags_def dotall_flags_def group_text_def rx_space_def rx_name_char_def rx_important_def rx_var_def resolve_css_value.simps rx_property_def rx_bold_word_def rx_bold_hundreds_def rx_weight_number_def rx_wght_def at_least_500_def font_shorthand_bold_def bold_weight_names_def font_weight_bold_def font_variation_bold_def names_bold_face_def font_family_bold_def style_implies_bold_def rx_style_block_def rx_css_rule_def rx_var_decl_def rx_class_selector_def css_rules_def declare_vars_def mark_classes_def extract_html_style_maps_def
  append_run_def rtf_init_def rtf_append_def rtf_append_as_def read_control_word_def hex_digit_def rtf_hex_text_def rtf_symbol_def rtf_control_def rtf_special_def rtf_loop.simps rtf_parse_def

section \<open>The byte decoder is total and leaves no NUL\<close>

lemma py_replace_single_nul: "(0::nat) \<notin> set (py_replace [0] [] s)"
proof (induction s)
  case Nil
  show ?case by (simp add: py_replace.simps)
next
  case (Cons c cs)
  have "py_replace [0] [] (c # cs) =
      (if c = 0 then py_replace [0] [] cs else c # py_replace [0] [] cs)"
    by (subst py_replace.simps) (simp add: py_startswith_def)
  then show ?case using Cons by simp
qed

lemma py_find_from_miss: "0 \<le> i \<Longrightarrow> py_find_from i s [x] = -1 \<Longrightarrow> x \<notin> set s"
proof (induction s arbitrary: i)
  case Nil
  show ?case by simp
next
  case (Cons c cs)
  from Cons.prems have ne: "c \<noteq> x" and rest: "py_find_from (i + 1) cs [x] = -1"
    by (auto simp: py_startswith_def split: if_splits)
  from Cons.IH [of "i + 1"] Cons.prems(1) rest have "x \<notin> set cs" by simp
  with ne show ?case by simp
qed

lemma not_contains_nul: "\<not> py_contains [0::nat] s \<Longrightarrow> 0 \<notin> set s"
  using py_find_from_miss [of 0 s 0] by (simp add: py_contains_def py_find_def)

lemma first_decoded_no_nul: "first_decoded L encs data = Some d \<Longrightarrow> 0 \<notin> set d"
proof (induction encs)
  case Nil
  then show ?case by simp
next
  case (Cons enc encs)
  then show ?case
    by (auto split: option.splits if_splits simp: py_replace_single_nul not_contains_nul)
qed

lemma first_decoded_latin1: "LATIN1 \<in> set encs \<Longrightarrow> first_decoded L encs data \<noteq> None"
  by (induction encs) (auto simp: py_decode_def split: option.splits)

lemma decode_attempt_latin1: "LATIN1 \<in> set (snd (decode_attempt L raw_data))"
  by (simp add: decode_attempt_def Let_def)

lemma decode_no_nul: "0 \<notin> set (decode_clipboard_bytes L raw_data)"
  by (auto simp: decode_clipboard_bytes_def py_replace_single_nul
      split: prod.splits option.splits dest: first_decoded_no_nul)

text \<open>
  C4. The decoder returns a string for every byte buffer and every behaviour of the
  codecs: the model has no failing branch, because each \<open>decode\<close> that raises is caught
  by the loop. The string it returns holds no NUL character, and it always comes from
  the loop over the codecs, since Latin-1 is among them and decodes every buffer; the
  fallback after the loop is never reached.
\<close>

theorem decode_clipboard_bytes_total:
  "0 \<notin> set (decode_clipboard_bytes L raw_data)
   \<and> first_decoded L (snd (decode_attempt L raw_data)) (fst (decode_attempt L raw_data)) \<noteq> None"
  by (simp add: decode_no_nul first_decoded_latin1 decode_attempt_latin1)

theorem decode_clipboard_bytes_total_witness:
  "0 \<notin> set (decode_clipboard_bytes ascii_lib [0xE9, 0, 0x41, 0, 0x0A])
   \<and> decode_clipboard_bytes ascii_lib [0xE9, 0, 0x41, 0, 0x0A] = [233, 65, 10]
   \<and> decode_clipboard_bytes ascii_lib [] = []"
  using decode_clipboard_bytes_total [of ascii_lib "[0xE9, 0, 0x41, 0, 0x0A]"]
  by (simp add: py_eval)

section \<open>Little-endian wide-character buffers\<close>

lemma stride2_nonempty: "xs \<noteq> [] \<Longrightarrow> stride2 xs \<noteq> []"
  by (cases xs rule: stride2.cases) simp_all

text \<open>
  C9, as stated, fails. The classification looks at buffers of at least eight bytes
  only, and a byte-order mark is read first. The six bytes below have two thirds of
  their odd-indexed bytes zero and no even-indexed byte zero; they are not classified as
  little-endian wide characters, UTF-8 is tried first, and the result is not the
  UTF-16LE reading of the buffer.
\<close>

theorem short_buffer_not_utf16le:
  "6 / 10 < zero_fraction (stride2 (drop 1 (sample_of [0x41, 1, 0x42, 0, 0x43, 0])))
   \<and> zero_fraction (stride2 (sample_of [0x41, 1, 0x42, 0, 0x43, 0])) < 25 / 100
   \<and> \<not> looks_like_utf16le [0x41, 1, 0x42, 0, 0x43, 0]
   \<and> decode_attempt ascii_lib [0x41, 1, 0x42, 0, 0x43, 0] =
        ([0x41, 1, 0x42, 0, 0x43], [UTF8, CP1252, LATIN1, UTF16LE])
   \<and> decode_clipboard_bytes ascii_lib [0x41, 1, 0x42, 0, 0x43, 0] = [65, 1, 66, 67]
   \<and> model_decode UTF16LE [0x41, 1, 0x42, 0, 0x43, 0] = Some [321, 66, 67]"
  by (simp add: py_eval)

text \<open>
  C9, amended. A buffer of at least eight bytes that does not start with a byte-order
  mark, with more than 60% of the odd-indexed bytes and less than 25% of the
  even-indexed bytes of its first 1024 bytes zero, is classified as little-endian wide
  characters: UTF-16LE is the first codec tried, on the buffer without its last byte
  when its length is odd, and the decoded string holds no NUL character.
\<close>

theorem utf16le_classified:
  assumes len: "8 \<le> length raw_data"
    and nobom: "\<not> starts_with_bom raw_data"
    and odd: "6 / 10 < zero_fraction (stride2 (drop 1 (sample_of raw_data)))"
    and even: "zero_fraction (stride2 (sample_of raw_data)) < 25 / 100"
  shows "looks_like_utf16le raw_data
    \<and> decode_attempt L raw_data =
        (if length raw_data mod 2 = 1 then butlast raw_data else raw_data,
         [UTF16LE, UTF16, UTF8, CP1252, LATIN1])
    \<and> 0 \<notin> set (decode_clipboard_bytes L raw_data)"
proof -
  have slen: "8 \<le> length (sample_of raw_data)"
    using len by (simp add: sample_of_def)
  then have "sample_of raw_data \<noteq> []" and "drop 1 (sample_of raw_data) \<noteq> []"
    by auto
  then have ne: "stride2 (sample_of raw_data) \<noteq> []"
      "stride2 (drop 1 (sample_of raw_data)) \<noteq> []"
    by (simp_all add: stride2_nonempty)
  have odd': "55 / 100 < zero_fraction (stride2 (drop 1 (sample_of raw_data)))"
    using odd by linarith
  have le: "looks_like_utf16le raw_data"
    using slen ne odd' even by (simp add: looks_like_utf16le_def Let_def)
  have att: "decode_attempt L raw_data =
      (if length raw_data mod 2 = 1 then butlast raw_data else raw_data,
       [UTF16LE, UTF16, UTF8, CP1252, LATIN1])"
    using le nobom by (simp add: decode_attempt_def drop_odd_byte_def Let_def)
  from le att decode_no_nul [of L raw_data] show ?thesis by blast
qed

theorem utf16le_classified_witness:
  "8 \<le> length [0x41, 0, 0x42, 0, 0x43, 0, 0x44, 0, 0x45 :: 8 word]
   \<and> \<not> starts_with_bom [0x41, 0, 0x42, 0, 0x43, 0, 0x44, 0, 0x45]
   \<and> looks_like_utf16le [0x41, 0, 0x42, 0, 0x43, 0, 0x44, 0, 0x45]
   \<and> decode_attempt ascii_lib [0x41, 0, 0x42, 0, 0x43, 0, 0x44, 0, 0x45] =
        ([0x41, 0, 0x42, 0, 0x43, 0, 0x44, 0], [UTF16LE, UTF16, UTF8, CP1252, LATIN1])
   \<and> decode_clipboard_bytes ascii_lib [0x41, 0, 0x42, 0, 0x43, 0, 0x44, 0, 0x45] = ustr ''ABCD''"
  using utf16le_classified [of "[0x41, 0, 0x42, 0, 0x43, 0, 0x44, 0, 0x45]" ascii_lib]
  by (simp add: py_eval)

section \<open>The legacy rich-text parser on a bold group\<close>

text \<open>
  C8. The input \<open>{\b hello\b0 world}\<close> parses to the two runs \<open>("hello", true)\<close> and
  \<open>("world", false)\<close>, whatever the library's tables hold beyond ASCII. In any state the
  control word \<open>b\<close> without a parameter sets bold, and with a parameter it sets bold
  exactly when the parameter is not 0.
\<close>

theorem rtf_bold_group:
  "rtf_parse L ([123, 92] @ ustr ''b hello'' @ [92] @ ustr ''b0 world}'') =
     Some [(ustr ''hello'', True), (ustr ''world'', False)]
   \<and> rtf_bold (rtf_control st (ustr ''b'') None) = True
   \<and> rtf_bold (rtf_control st (ustr ''b'') (Some k)) = (k \<noteq> 0)"
  by (simp add: py_eval)

theorem rtf_bold_group_witness:
  "rtf_parse ascii_lib ([123, 92] @ ustr ''b hello'' @ [92] @ ustr ''b0 world}'') =
     Some [(ustr ''hello'', True), (ustr ''world'', False)]
   \<and> rtf_bold (rtf_control rtf_init (ustr ''b'') (Some 1)) = True
   \<and> rtf_bold (rtf_control (rtf_init\<lparr>rtf_bold := True\<rparr>) (ustr ''b'') (Some 0)) = False"
  using rtf_bold_group [of ascii_lib rtf_init 1]
    rtf_bold_group [of ascii_lib "rtf_init\<lparr>rtf_bold := True\<rparr>" 0]
  by simp

section \<open>A font weight given by a variable\<close>

text \<open>
  C7. With a variable table that maps \<open>--w\<close> to \<open>700\<close>, the reference \<open>var(--w)\<close> resolves
  to \<open>700\<close> and the style predicate holds of \<open>font-weight: var(--w)\<close>. The witness takes
  the table that the style map builder makes from a style block with the declaration
  \<open>--w: 700;\<close>.
\<close>

theorem var_weight_is_bold:
  assumes "vars (ustr ''--w'') = Some (ustr ''700'')"
  shows "resolve_css_value L vars (ustr ''var(--w)'') 0 = ustr ''700''
    \<and> style_implies_bold L (ustr ''font-weight: var(--w)'') vars"
  using assms by (simp add: py_eval)

theorem var_weight_is_bold_witness:
  "sm_css_vars (extract_html_style_maps ascii_lib (ustr ''<style>:root{--w: 700;}</style>''))
     (ustr ''--w'') = Some (ustr ''700'')
   \<and> style_implies_bold ascii_lib (ustr ''font-weight: var(--w)'')
       (sm_css_vars (extract_html_style_maps ascii_lib (ustr ''<style>:root{--w: 700;}</style>'')))"
proof -
  have built: "sm_css_vars (extract_html_style_maps ascii_lib
      (ustr ''<style>:root{--w: 700;}</style>'')) (ustr ''--w'') = Some (ustr ''700'')"
    by (simp add: py_eval)
  from var_weight_is_bold
      [of "sm_css_vars (extract_html_style_maps ascii_lib
             (ustr ''<style>:root{--w: 700;}</style>''))" ascii_lib] built
  show ?thesis by blast
qed

section \<open>The depth counters of the markup run parser\<close>

lemma html_append_depths:
  "h_bold_depth (html_append st text is_bold) = h_bold_depth st"
  "h_skip_depth (html_append st text is_bold) = h_skip_depth st"
  by (simp_all add: html_append_def)

lemma html_append_newline_depths:
  "h_bold_depth (html_append_newline st) = h_bold_depth st"
  "h_skip_depth (html_append_newline st) = h_skip_depth st"
  by (simp_all add: html_append_newline_def html_append_depths)

lemma handle_starttag_depths:
  assumes "0 \<le> h_bold_depth st" "0 \<le> h_skip_depth st"
  shows "0 \<le> h_bold_depth (handle_starttag L class_bold vars st tag attrs)
    \<and> 0 \<le> h_skip_depth (handle_starttag L class_bold vars st tag attrs)"
  using assms
  by (simp add: handle_starttag_def Let_def html_append_depths html_append_newline_depths)

lemma handle_endtag_depths:
  assumes "0 \<le> h_bold_depth st" "0 \<le> h_skip_depth st"
  shows "0 \<le> h_bold_depth (handle_endtag L st tag)
    \<and> 0 \<le> h_skip_depth (handle_endtag L st tag)"
  using assms
  by (auto simp: handle_endtag_def Let_def html_append_depths html_append_newline_depths
      split: option.splits)

lemma handle_data_depths:
  assumes "0 \<le> h_bold_depth st" "0 \<le> h_skip_depth st"
  shows "0 \<le> h_bold_depth (handle_data st data) \<and> 0 \<le> h_skip_depth (handle_data st data)"
  using assms by (simp add: handle_data_def html_append_depths)

lemma html_step_depths:
  assumes "0 \<le> h_bold_depth st \<and> 0 \<le> h_skip_depth st"
  shows "0 \<le> h_bold_depth (html_step L class_bold vars st ev)
    \<and> 0 \<le> h_skip_depth (html_step L class_bold vars st ev)"
  using assms
  by (cases ev) (simp_all add: handle_starttag_depths handle_endtag_depths handle_data_depths)

lemma html_fold_depths:
  assumes "0 \<le> h_bold_depth st \<and> 0 \<le> h_skip_depth st"
  shows "0 \<le> h_bold_depth (foldl (html_step L class_bold vars) st events)
    \<and> 0 \<le> h_skip_depth (foldl (html_step L class_bold vars) st events)"
  using assms
proof (induction events arbitrary: st)
  case Nil
  then show ?case by simp
next
  case (Cons ev events)
  from html_step_depths [OF Cons.prems] Cons.IH show ?case by simp
qed

lemma html_run_depths:
  "0 \<le> h_bold_depth (html_run L class_bold vars events)
   \<and> 0 \<le> h_skip_depth (html_run L class_bold vars events)"
  unfolding html_run_def by (rule html_fold_depths) (simp add: html_init_def)

lemma pop_tag_None: "pop_tag lowered stack = None \<longleftrightarrow> lowered \<notin> fst ` set stack"
  by (induction stack) (auto split: option.splits)

lemma unmatched_endtag_keeps_bold_depth:
  assumes "py_lower L tag \<notin> fst ` set (h_tag_stack st)"
  shows "h_bold_depth (handle_endtag L st tag) = h_bold_depth st"
proof -
  from assms have "pop_tag (py_lower L tag) (h_tag_stack st) = None"
    by (simp add: pop_tag_None)
  then show ?thesis
    by (simp add: handle_endtag_def Let_def html_append_depths html_append_newline_depths)
qed

lemma append_run_last:
  assumes "text \<noteq> []"
  shows "append_run runs text is_bold \<noteq> []
    \<and> snd (last (append_run runs text is_bold)) = is_bold
    \<and> concat (map fst (append_run runs text is_bold)) = concat (map fst runs) @ text"
proof (cases "runs \<noteq> [] \<and> snd (last runs) = is_bold")
  case True
  then have "concat (map fst runs) = concat (map fst (butlast runs @ [last runs]))"
    by simp
  also have "\<dots> = concat (map fst (butlast runs)) @ fst (last runs)"
    by (simp del: append_butlast_last_id)
  finally have "concat (map fst runs) = concat (map fst (butlast runs)) @ fst (last runs)" .
  with True assms show ?thesis by (simp add: append_run_def)
next
  case False
  with assms show ?thesis by (auto simp: append_run_def)
qed

lemma handle_data_emits:
  assumes "h_skip_depth st \<le> 0" "data \<noteq> []"
  shows "h_runs (handle_data st data) \<noteq> []
    \<and> snd (last (h_runs (handle_data st data))) = (0 < h_bold_depth st)
    \<and> concat (map fst (h_runs (handle_data st data))) = concat (map fst (h_runs st)) @ data"
  using assms append_run_last [of data "h_runs st" "0 < h_bold_depth st"]
  by (simp add: handle_data_def html_append_def)

text \<open>
  C10. After every prefix of every sequence of handler calls, balanced or not, the bold
  depth and the skip depth are at least 0. A close tag whose name is on no entry of the
  tag stack leaves the bold depth as it is. A text node outside skipped elements adds its
  text to the runs, and the last run then carries the flag "bold depth is positive";
  inside a skipped element it changes nothing.
\<close>

theorem html_depths_never_negative:
  "0 \<le> h_bold_depth (html_run L class_bold vars (take n events))
   \<and> 0 \<le> h_skip_depth (html_run L class_bold vars (take n events))
   \<and> (py_lower L tag \<notin> fst ` set (h_tag_stack st) \<longrightarrow>
        h_bold_depth (handle_endtag L st tag) = h_bold_depth st)
   \<and> (h_skip_depth st \<le> 0 \<and> data \<noteq> [] \<longrightarrow>
        h_runs (handle_data st data) \<noteq> []
        \<and> snd (last (h_runs (handle_data st data))) = (0 < h_bold_depth st)
        \<and> concat (map fst (h_runs (handle_data st data))) = concat (map fst (h_runs st)) @ data)
   \<and> (0 < h_skip_depth st \<longrightarrow> handle_data st data = st)"
  using html_run_depths [of L class_bold vars "take n events"]
    unmatched_endtag_keeps_bold_depth [of L tag st] handle_data_emits [of st data]
  by (simp add: handle_data_def)

theorem html_depths_never_negative_witness:
  "h_bold_depth (html_run ascii_lib Map.empty Map.empty
      (take 2 [EndTag (ustr ''b''), EndTag (ustr ''style''), StartTag (ustr ''b'') [],
               Data (ustr ''x''), EndTag (ustr ''b''), EndTag (ustr ''b''), Data (ustr ''y'')])) = 0
   \<and> h_skip_depth (html_run ascii_lib Map.empty Map.empty
      (take 2 [EndTag (ustr ''b''), EndTag (ustr ''style''), StartTag (ustr ''b'') [],
               Data (ustr ''x''), EndTag (ustr ''b''), EndTag (ustr ''b''), Data (ustr ''y'')])) = 0
   \<and> h_runs (html_run ascii_lib Map.empty Map.empty
      [EndTag (ustr ''b''), EndTag (ustr ''style''), StartTag (ustr ''b'') [],
       Data (ustr ''x''), EndTag (ustr ''b''), EndTag (ustr ''b''), Data (ustr ''y'')]) =
      [(ustr ''x'', True), (ustr ''y'', False)]
   \<and> py_lower ascii_lib (ustr ''B'') \<notin> fst ` set (h_tag_stack (html_init\<lparr>h_bold_depth := 1\<rparr>))
   \<and> h_bold_depth (handle_endtag ascii_lib (html_init\<lparr>h_bold_depth := 1\<rparr>) (ustr ''B'')) = 1
   \<and> h_skip_depth (html_init\<lparr>h_bold_depth := 1\<rparr>) \<le> 0
   \<and> h_runs (handle_data (html_init\<lparr>h_bold_depth := 1\<rparr>) (ustr ''x'')) = [(ustr ''x'', True)]"
  using html_depths_never_negative [of ascii_lib Map.empty Map.empty 2
      "[EndTag (ustr ''b''), EndTag (ustr ''style''), StartTag (ustr ''b'') [],
        Data (ustr ''x''), EndTag (ustr ''b''), EndTag (ustr ''b''), Data (ustr ''y'')]"
      "ustr ''B''" "html_init\<lparr>h_bold_depth := 1\<rparr>" "ustr ''x''"]
  by (simp add: py_eval)

section \<open>The normalized-sequence invariant and idempotence\<close>

lemma normalized_texts_nonempty: "[] \<notin> fst ` set (normalize_captured_runs L runs)"
  by (auto simp: normalize_captured_runs_def nonempty_runs_def Let_def)

text \<open>
  C5. The markup \<open>a <b> </b>b\<close> gives the parser the runs \<open>("a ", false)\<close>,
  \<open>(" ", true)\<close>, \<open>("b", false)\<close>. The normalizer empties the middle run, drops it, and
  returns the two runs around it as they are: two adjacent runs with the same bold value.
  The other half of the invariant holds: no run of an output has an empty text.
\<close>

theorem normalize_leaves_equal_neighbours:
  "h_runs (html_run L class_bold vars
      [Data (ustr ''a ''), StartTag (ustr ''b'') [], Data (ustr '' ''), EndTag (ustr ''b''),
       Data (ustr ''b'')]) =
      [(ustr ''a '', False), (ustr '' '', True), (ustr ''b'', False)]
   \<and> normalize_captured_runs L
        [(ustr ''a '', False), (ustr '' '', True), (ustr ''b'', False)] =
      [(ustr ''a '', False), (ustr ''b'', False)]
   \<and> [] \<notin> fst ` set (normalize_captured_runs L runs)"
  using normalized_texts_nonempty [of L runs] by (simp add: py_eval)

theorem normalize_leaves_equal_neighbours_witness:
  "normalize_captured_runs ascii_lib
        [(ustr ''a '', False), (ustr '' '', True), (ustr ''b'', False)] =
      [(ustr ''a '', False), (ustr ''b'', False)]
   \<and> snd ([(ustr ''a '', False), (ustr ''b'', False)] ! 0) =
       snd ([(ustr ''a '', False), (ustr ''b'', False)] ! 1)"
  using normalize_leaves_equal_neighbours [of ascii_lib Map.empty Map.empty "[]"] by simp

text \<open>
  C6. Normalizing that output again joins its two runs, so the normalizer is not
  idempotent on the runs of \<open>a <b> </b>b\<close>.
\<close>

theorem normalize_twice_differs:
  "normalize_captured_runs L
        [(ustr ''a '', False), (ustr '' '', True), (ustr ''b'', False)] =
      [(ustr ''a '', False), (ustr ''b'', False)]
   \<and> normalize_captured_runs L
        (normalize_captured_runs L
           [(ustr ''a '', False), (ustr '' '', True), (ustr ''b'', False)]) =
      [(ustr ''a b'', False)]"
  by (simp add: py_eval)

theorem normalize_twice_differs_witness:
  "normalize_captured_runs ascii_lib
        (normalize_captured_runs ascii_lib
           [(ustr ''a '', False), (ustr '' '', True), (ustr ''b'', False)]) \<noteq>
   normalize_captured_runs ascii_lib
        [(ustr ''a '', False), (ustr '' '', True), (ustr ''b'', False)]"
proof -
  note both = normalize_twice_differs [of ascii_lib]
  have "[(ustr ''a b'', False)] \<noteq> [(ustr ''a '', False), (ustr ''b'', False)]"
    by simp
  then show ?thesis
    by (subst both [THEN conjunct2], subst both [THEN conjunct1])
qed

section \<open>Fragment extraction with invalid offsets\<close>









section \<open>The scoring and acceptance of the markup candidates\<close>



















lemma score_similarity: "fst (snd (candidate_score L cp runs)) = candidate_similarity L cp runs"
  by (simp add: candidate_score_def Let_def)






end
